theory Spec2Isabelle
  imports Main "HOL-Library.Sublist"
begin

section \<open>Strings and paths\<close>

text \<open>
  Python strings are modelled as \<open>string\<close> (lists of 8-bit characters), so the text handled
  here is ASCII. \<open>s.startswith(p)\<close> is \<open>prefix p s\<close> and \<open>p in s\<close> is \<open>sublist p s\<close>.
\<close>

definition lower_char :: "char \<Rightarrow> char" where
  "lower_char c =
     (case map_of (zip ''ABCDEFGHIJKLMNOPQRSTUVWXYZ'' ''abcdefghijklmnopqrstuvwxyz'') c of
        None \<Rightarrow> c
      | Some d \<Rightarrow> d)"

definition lower :: "string \<Rightarrow> string" where
  "lower s = map lower_char s"

fun str_nat :: "nat \<Rightarrow> string" where
  "str_nat n =
     (if n < 10 then [''0123456789'' ! n]
      else str_nat (n div 10) @ [''0123456789'' ! (n mod 10)])"

declare str_nat.simps [simp del]

definition str_int :: "int \<Rightarrow> string" where
  "str_int i = (if i < 0 then CHR ''-'' # str_nat (nat (- i)) else str_nat (nat i))"

text \<open>\<open>s.split(c)\<close> for a one-character separator: always at least one piece.\<close>

fun split_char :: "char \<Rightarrow> string \<Rightarrow> string list" where
  "split_char c [] = [[]]"
| "split_char c (x # xs) =
     (if x = c then [] # split_char c xs
      else (case split_char c xs of
              [] \<Rightarrow> [[x]]
            | p # ps \<Rightarrow> (x # p) # ps))"

text \<open>\<open>s.split(c, 1)\<close>: split at the first occurrence only.\<close>

definition split_once :: "char \<Rightarrow> string \<Rightarrow> string list" where
  "split_once c s =
     (if c \<in> set s then [takeWhile (\<lambda>x. x \<noteq> c) s, tl (dropWhile (\<lambda>x. x \<noteq> c) s)]
      else [s])"

fun join_sep :: "string \<Rightarrow> string list \<Rightarrow> string" where
  "join_sep sep [] = []"
| "join_sep sep [x] = x"
| "join_sep sep (x # y # ys) = x @ sep @ join_sep sep (y # ys)"

text \<open>
  POSIX path syntax. \<open>path_join\<close> is \<open>os.path.join\<close> for two arguments; \<open>parts\<close> are the
  components the kernel (and \<open>pathlib\<close>) sees: empty components and \<open>.\<close> are dropped.
  A path is resolved against the working directory unless it is absolute. Symbolic links
  and \<open>..\<close> are not interpreted: \<open>..\<close> is kept as a name.
\<close>

definition path_join :: "string \<Rightarrow> string \<Rightarrow> string" where
  "path_join a b =
     (if prefix ''/'' b then b
      else if a = [] \<or> suffix ''/'' a then a @ b
      else a @ ''/'' @ b)"

definition is_abs :: "string \<Rightarrow> bool" where
  "is_abs s = prefix ''/'' s"

definition parts :: "string \<Rightarrow> string list" where
  "parts s = filter (\<lambda>c. c \<noteq> [] \<and> c \<noteq> ''.'') (split_char CHR ''/'' s)"

type_synonym path = "string list"

definition resolve :: "path \<Rightarrow> string \<Rightarrow> path" where
  "resolve wd s = (if is_abs s then [] else wd) @ parts s"

text \<open>\<open>str(Path(d) / name)\<close> of \<open>pathlib\<close>.\<close>

definition path_str :: "bool \<Rightarrow> string list \<Rightarrow> string" where
  "path_str ab ps =
     (if ab then ''/'' @ join_sep ''/'' ps
      else if ps = [] then ''.'' else join_sep ''/'' ps)"

definition path_div :: "string \<Rightarrow> string \<Rightarrow> string" where
  "path_div d name =
     (if is_abs name then path_str True (parts name)
      else path_str (is_abs d) (parts d @ parts name))"

section \<open>The file system\<close>

text \<open>
  Directories and regular files, keyed by resolved path; the root \<open>[]\<close> always exists.
  Every operation fails on the conditions the operating system checks on the state, and
  also when the environment injects a fault for it (permissions, a full disk, a rename
  across devices): \<open>faults\<close> names the operation kind and the resolved path.
\<close>

record filesys =
  cwd :: path
  dirs :: "path set"
  files :: "path \<rightharpoonup> string"

datatype fs_op = OpMkdir | OpOpen | OpWrite | OpFlush | OpFsync | OpReplace | OpRemove

type_synonym faults = "fs_op \<Rightarrow> path \<Rightarrow> bool"

definition is_dir :: "filesys \<Rightarrow> path \<Rightarrow> bool" where
  "is_dir fs p = (p = [] \<or> p \<in> dirs fs)"

definition is_file :: "filesys \<Rightarrow> path \<Rightarrow> bool" where
  "is_file fs p = (files fs p \<noteq> None)"

definition path_exists :: "filesys \<Rightarrow> string \<Rightarrow> bool" where
  "path_exists fs s = (is_dir fs (resolve (cwd fs) s) \<or> is_file fs (resolve (cwd fs) s))"

text \<open>
  \<open>os.makedirs(name, exist_ok=True)\<close> and \<open>Path(name).mkdir(parents=True, exist_ok=True)\<close>:
  walk down the components, creating each directory that is missing; a component that is
  a regular file, or a refused \<open>mkdir\<close>, raises.
\<close>

fun mkdir_chain :: "faults \<Rightarrow> path \<Rightarrow> string list \<Rightarrow> filesys \<Rightarrow> string + filesys" where
  "mkdir_chain flt pre [] fs = Inr fs"
| "mkdir_chain flt pre (c # cs) fs =
     (let q = pre @ [c] in
      if is_dir fs q then mkdir_chain flt q cs fs
      else if is_file fs q then Inl ''File exists''
      else if flt OpMkdir q then Inl ''Permission denied''
      else mkdir_chain flt q cs (fs\<lparr>dirs := insert q (dirs fs)\<rparr>))"

definition makedirs :: "faults \<Rightarrow> string \<Rightarrow> filesys \<Rightarrow> string + filesys" where
  "makedirs flt name fs =
     mkdir_chain flt (if is_abs name then [] else cwd fs) (parts name) fs"

text \<open>\<open>open(path, 'w')\<close>: creates or truncates the file.\<close>

definition open_w :: "faults \<Rightarrow> string \<Rightarrow> filesys \<Rightarrow> string + filesys" where
  "open_w flt name fs =
     (let p = resolve (cwd fs) name in
      if p = [] \<or> is_dir fs p then Inl ''Is a directory''
      else if \<not> is_dir fs (butlast p) then Inl ''No such file or directory''
      else if flt OpOpen p then Inl ''Permission denied''
      else Inr (fs\<lparr>files := (files fs)(p \<mapsto> [])\<rparr>))"

text \<open>
  Writing the text of an open file. A refused write leaves the file as \<open>open\<close> left it
  (what a partial write leaves behind is not modelled).
\<close>

definition write_text :: "faults \<Rightarrow> string \<Rightarrow> string \<Rightarrow> filesys \<Rightarrow> string + filesys" where
  "write_text flt name s fs =
     (let p = resolve (cwd fs) name in
      if flt OpWrite p then Inl ''No space left on device''
      else Inr (fs\<lparr>files := (files fs)(p \<mapsto> s)\<rparr>))"

text \<open>\<open>os.replace(src, dst)\<close>: one step that moves \<open>src\<close> onto \<open>dst\<close>.\<close>

definition replace :: "faults \<Rightarrow> string \<Rightarrow> string \<Rightarrow> filesys \<Rightarrow> string + filesys" where
  "replace flt src dst fs =
     (let p = resolve (cwd fs) src; q = resolve (cwd fs) dst in
      case files fs p of
        None \<Rightarrow> Inl ''No such file or directory''
      | Some content \<Rightarrow>
          if q = [] \<or> is_dir fs q then Inl ''Is a directory''
          else if \<not> is_dir fs (butlast q) then Inl ''No such file or directory''
          else if flt OpReplace q then Inl ''Invalid cross-device link''
          else Inr (fs\<lparr>files := ((files fs)(p := None))(q \<mapsto> content)\<rparr>))"

text \<open>\<open>os.remove(path)\<close>.\<close>

definition remove :: "faults \<Rightarrow> string \<Rightarrow> filesys \<Rightarrow> string + filesys" where
  "remove flt name fs =
     (let p = resolve (cwd fs) name in
      if \<not> is_file fs p then Inl ''No such file or directory''
      else if flt OpRemove p then Inl ''Permission denied''
      else Inr (fs\<lparr>files := (files fs)(p := None)\<rparr>))"

section \<open>The generation adapter: scripts/fastvideo/fastvideo_server.py\<close>

subsection \<open>Data\<close>

text \<open>
  Exceptions other than \<open>HTTPException\<close> are kept with their message \<open>str(e)\<close>;
  \<open>IndexError\<close> is the one the adapter's own code raises.
\<close>

datatype py_exn = IndexError | Exception string

fun str_exn :: "py_exn \<Rightarrow> string" where
  "str_exn IndexError = ''list index out of range''"
| "str_exn (Exception m) = m"

datatype raised = HTTPException nat string | Unhandled py_exn

record image =
  img_size :: "int \<times> int"
  mode :: string
  pixels :: nat

record SamplingParam =
  prompt :: string
  num_frames :: int
  fps :: int
  width :: int
  height :: int
  seed :: int
  negative_prompt :: string
  image :: "image option"

record GenerateVideoResponse =
  status :: string
  outputVideoPath :: "string option"
  frames :: "int option"
  durationMs :: "int option"
  seed :: "int option"
  warnings :: "string list"
  error :: "string option"

record GenerateVideoRequest =
  prompt :: string
  negativePrompt :: "string option"
  keyframeBase64 :: "string option"
  fps :: int
  numFrames :: int
  width :: int
  height :: int
  seed :: "int option"
  outputDir :: string

text \<open>
  What the worker's \<open>generate_video\<close> returns: a dict, a list of frames, or a value of
  another type (its type name and its truth value). Frames are opaque.
\<close>

datatype dict_value = VNone | VStr string | VVideo "nat list"

datatype worker_result =
  RDict "(string \<times> dict_value) list"
| RList "nat list"
| ROther string bool

datatype http_response = JsonResponse GenerateVideoResponse | ErrorResponse nat string

fun http_status :: "http_response \<Rightarrow> nat" where
  "http_status (JsonResponse r) = 200"
| "http_status (ErrorResponse code detail) = code"

text \<open>
  The libraries and the machine, as parameters: \<open>base64.b64decode\<close>, \<open>Image.open\<close>,
  the \<open>n\<close>-th construction of a \<open>VideoGenerator\<close> (its outcome and the milliseconds it
  takes), the worker's \<open>generate_video\<close> (its outcome, the files it leaves and the
  milliseconds it takes), \<open>imageio.mimsave\<close>, and the faults of the file system.
  An \<open>Inl\<close> is the message of the exception raised.
\<close>

record server_env =
  b64decode :: "string \<Rightarrow> string + string"
  image_open :: "string \<Rightarrow> string + image"
  loader :: "nat \<Rightarrow> (string + nat) \<times> nat"
  worker :: "nat \<Rightarrow> SamplingParam \<Rightarrow> filesys \<Rightarrow> (string + worker_result) \<times> filesys \<times> nat"
  mimsave :: "string \<Rightarrow> nat list \<Rightarrow> int \<Rightarrow> filesys \<Rightarrow> string + filesys"
  fs_faults :: faults

text \<open>
  The process: the file system, the module global \<open>_generator\<close> (written
  \<open>g_generator\<close>), the clock in milliseconds, and two counters that observe the worker
  (constructions attempted, calls made).
\<close>

record server_state =
  fs :: filesys
  g_generator :: "nat option"
  clock :: nat
  load_count :: nat
  worker_calls :: "SamplingParam list"

subsection \<open>Request validation (the field constraints of \<open>GenerateVideoRequest\<close>)\<close>

record raw_request =
  raw_prompt :: "string option"
  raw_negativePrompt :: "string option"
  raw_keyframeBase64 :: "string option"
  raw_fps :: "int option"
  raw_numFrames :: "int option"
  raw_width :: "int option"
  raw_height :: "int option"
  raw_seed :: "int option"
  raw_outputDir :: "string option"

definition field_default :: "'a \<Rightarrow> 'a option \<Rightarrow> 'a" where
  "field_default d v = (case v of None \<Rightarrow> d | Some x \<Rightarrow> x)"

definition range_errors :: "string \<Rightarrow> int \<Rightarrow> int \<Rightarrow> int \<Rightarrow> string list" where
  "range_errors name ge le v = (if ge \<le> v \<and> v \<le> le then [] else [name])"

definition validate :: "raw_request \<Rightarrow> string list + GenerateVideoRequest" where
  "validate raw =
     (let f = field_default 16 (raw_fps raw);
          n = field_default 121 (raw_numFrames raw);
          w = field_default 1280 (raw_width raw);
          h = field_default 544 (raw_height raw);
          errs = (case raw_prompt raw of None \<Rightarrow> [''prompt''] | Some p \<Rightarrow> [])
               @ range_errors ''fps'' 8 30 f
               @ range_errors ''numFrames'' 8 300 n
               @ range_errors ''width'' 256 1920 w
               @ range_errors ''height'' 256 1080 h
      in if errs \<noteq> [] then Inl errs
         else Inr \<lparr> prompt = field_default [] (raw_prompt raw),
                    negativePrompt = raw_negativePrompt raw,
                    keyframeBase64 = raw_keyframeBase64 raw,
                    fps = f, numFrames = n, width = w, height = h,
                    seed = raw_seed raw,
                    outputDir = field_default ''artifacts/fastvideo'' (raw_outputDir raw) \<rparr>)"

subsection \<open>\<open>get_generator\<close>\<close>

definition get_generator :: "server_env \<Rightarrow> server_state \<Rightarrow> (py_exn + nat) \<times> server_state" where
  "get_generator env st =
     (case g_generator st of
        Some g \<Rightarrow> (Inr g, st)
      | None \<Rightarrow>
          (case loader env (load_count st) of
             (Inl msg, dt) \<Rightarrow>
               (Inl (Exception msg),
                st\<lparr>load_count := Suc (load_count st), clock := clock st + dt\<rparr>)
           | (Inr g, dt) \<Rightarrow>
               (Inr g,
                st\<lparr>g_generator := Some g, load_count := Suc (load_count st),
                   clock := clock st + dt\<rparr>)))"

subsection \<open>\<open>decode_base64_image\<close>\<close>

definition convert :: "string \<Rightarrow> image \<Rightarrow> image" where
  "convert m img = img\<lparr>mode := m\<rparr>"

definition resize :: "int \<times> int \<Rightarrow> image \<Rightarrow> image" where
  "resize sz img = img\<lparr>img_size := sz\<rparr>"

definition strip_data_url :: "string \<Rightarrow> py_exn + string" where
  "strip_data_url base64_str =
     (if prefix ''data:'' base64_str
      then (let ps = split_once CHR '','' base64_str
            in if 1 < length ps then Inr (ps ! 1) else Inl IndexError)
      else Inr base64_str)"

definition decode_base64_image :: "server_env \<Rightarrow> string \<Rightarrow> py_exn + image" where
  "decode_base64_image env base64_str =
     (case strip_data_url base64_str of
        Inl e \<Rightarrow> Inl e
      | Inr s \<Rightarrow>
          (case b64decode env s of
             Inl m \<Rightarrow> Inl (Exception m)
           | Inr image_data \<Rightarrow>
               (case image_open env image_data of
                  Inl m \<Rightarrow> Inl (Exception m)
                | Inr img \<Rightarrow> Inr (convert ''RGB'' img))))"

subsection \<open>\<open>generate_video\<close>\<close>

definition truthy :: "string option \<Rightarrow> bool" where
  "truthy v = (case v of None \<Rightarrow> False | Some s \<Rightarrow> s \<noteq> [])"

text \<open>Lines 137 to 143: the generator, a failure to load being an HTTP 500.\<close>

definition load_phase :: "server_env \<Rightarrow> server_state \<Rightarrow> (raised + nat) \<times> server_state" where
  "load_phase env st =
     (case get_generator env st of
        (Inl e, st') \<Rightarrow>
          (Inl (HTTPException 500 (''Failed to load FastVideo model: '' @ str_exn e)), st')
      | (Inr g, st') \<Rightarrow> (Inr g, st'))"

definition repr_size :: "int \<times> int \<Rightarrow> string" where
  "repr_size sz = ''('' @ str_int (fst sz) @ '', '' @ str_int (snd sz) @ '')''"

text \<open>
  Lines 146 to 158: the keyframe, decoded and resized to the request; any exception is an
  HTTP 400. The result is the start image and the warnings so far.
\<close>

definition keyframe_phase ::
  "server_env \<Rightarrow> GenerateVideoRequest \<Rightarrow> raised + (image option \<times> string list)" where
  "keyframe_phase env request =
     (if truthy (keyframeBase64 request)
      then (case decode_base64_image env (the (keyframeBase64 request)) of
              Inl e \<Rightarrow>
                Inl (HTTPException 400 (''Failed to decode keyframe image: '' @ str_exn e))
            | Inr start_image \<Rightarrow>
                if img_size start_image \<noteq> (width request, height request)
                then Inr (Some (resize (width request, height request) start_image),
                          [''Keyframe resized from '' @ repr_size (img_size start_image)
                           @ '' to '' @ repr_size (width request, height request)])
                else Inr (Some start_image, []))
      else Inr (None, []))"

definition full_prompt :: "GenerateVideoRequest \<Rightarrow> string" where
  "full_prompt request =
     (if truthy (negativePrompt request)
      then prompt request @ [CHR 0x0A, CHR 0x0A] @ ''Negative: '' @ the (negativePrompt request)
      else prompt request)"

definition sampling_param :: "GenerateVideoRequest \<Rightarrow> image option \<Rightarrow> SamplingParam" where
  "sampling_param request start_image =
     \<lparr> SamplingParam.prompt = full_prompt request,
       num_frames = numFrames request,
       fps = fps request,
       width = width request,
       height = height request,
       seed = (case seed request of None \<Rightarrow> - 1 | Some s \<Rightarrow> s),
       negative_prompt = (if truthy (negativePrompt request) then the (negativePrompt request) else []),
       image = start_image \<rparr>"

text \<open>Lines 187 to 200: the worker's error text, matched against the known signatures.\<close>

definition classify_error :: "string \<Rightarrow> raised" where
  "classify_error error_msg =
     (if sublist ''CUDA out of memory'' error_msg \<or> sublist ''OutOfMemoryError'' error_msg
      then HTTPException 507
             ''CUDA OOM: Try reducing numFrames, resolution, or closing other GPU processes''
      else if sublist ''No such file'' error_msg \<or> sublist ''model'' (lower error_msg)
      then HTTPException 500 (''Model not found or corrupted: '' @ error_msg)
      else HTTPException 500 (''Generation failed: '' @ error_msg))"

fun result_truthy :: "worker_result \<Rightarrow> bool" where
  "result_truthy (RDict d) = (d \<noteq> [])"
| "result_truthy (RList l) = (l \<noteq> [])"
| "result_truthy (ROther ty b) = b"

text \<open>Lines 169 to 200: the call of the worker.\<close>

definition worker_phase ::
  "server_env \<Rightarrow> nat \<Rightarrow> SamplingParam \<Rightarrow> server_state \<Rightarrow> (raised + worker_result) \<times> server_state" where
  "worker_phase env generator sp st =
     (case worker env generator sp (fs st) of
        (outcome, fs', dt) \<Rightarrow>
          (let st' = st\<lparr>fs := fs', clock := clock st + dt,
                        worker_calls := worker_calls st @ [sp]\<rparr>
           in case outcome of
                Inl error_msg \<Rightarrow> (Inl (classify_error error_msg), st')
              | Inr result \<Rightarrow>
                  if \<not> result_truthy result
                  then (Inl (classify_error ''Generator returned empty results''), st')
                  else (Inr result, st')))"

fun value_truthy :: "dict_value \<Rightarrow> bool" where
  "value_truthy VNone = False"
| "value_truthy (VStr s) = (s \<noteq> [])"
| "value_truthy (VVideo l) = (l \<noteq> [])"

definition dict_get :: "(string \<times> dict_value) list \<Rightarrow> string \<Rightarrow> dict_value" where
  "dict_get d k = (case map_of d k of None \<Rightarrow> VNone | Some v \<Rightarrow> v)"

definition repr_keys :: "(string \<times> dict_value) list \<Rightarrow> string" where
  "repr_keys d =
     ''dict_keys(['' @ join_sep '', '' (map (\<lambda>kv. [CHR 0x27] @ fst kv @ [CHR 0x27]) d) @ ''])''"

definition new_filename :: "server_state \<Rightarrow> string" where
  "new_filename st = ''fastvideo_'' @ str_nat (clock st) @ ''.mp4''"

definition save_frames ::
  "server_env \<Rightarrow> string \<Rightarrow> dict_value \<Rightarrow> int \<Rightarrow> server_state \<Rightarrow> (py_exn + dict_value) \<times> server_state" where
  "save_frames env output_path video f st =
     (case video of
        VVideo video_frames \<Rightarrow>
          (case mimsave env output_path video_frames f (fs st) of
             Inl m \<Rightarrow> (Inl (Exception m), st)
           | Inr fs' \<Rightarrow> (Inr (VStr output_path), st\<lparr>fs := fs'\<rparr>))
      | _ \<Rightarrow> (Inl (Exception ''Could not save: not a sequence of frames''), st))"

text \<open>
  Lines 205 to 235: where the output is. The value is what \<open>output_path\<close> holds
  afterwards, which is whatever the worker put under the key when it is truthy.
\<close>

definition resolve_output ::
  "server_env \<Rightarrow> GenerateVideoRequest \<Rightarrow> worker_result \<Rightarrow> server_state
     \<Rightarrow> (py_exn + dict_value) \<times> server_state" where
  "resolve_output env request result st =
     (case result of
        RDict d \<Rightarrow>
          (let output_path =
                 (if value_truthy (dict_get d ''save_path'') then dict_get d ''save_path''
                  else dict_get d ''output_video_path'')
           in if \<not> value_truthy output_path
              then (let output_path' = path_div (outputDir request) (new_filename st)
                    in if map_of d ''video'' \<noteq> None
                       then save_frames env output_path' (dict_get d ''video'') (fps request) st
                       else (Inl (Exception (''Result dict missing save_path and video data: ''
                                             @ repr_keys d)), st))
              else (Inr output_path, st))
      | RList video_frames \<Rightarrow>
          save_frames env (path_div (outputDir request) (new_filename st)) (VVideo video_frames)
            (fps request) st
      | ROther ty b \<Rightarrow>
          (Inl (Exception (''Unexpected result type: <class '' @ [CHR 0x27] @ ty @ [CHR 0x27]
                           @ ''>'')), st))"

text \<open>Lines 237 to 252: the output must exist; then the response.\<close>

definition finish ::
  "GenerateVideoRequest \<Rightarrow> string list \<Rightarrow> nat \<Rightarrow> dict_value \<Rightarrow> server_state
     \<Rightarrow> raised + GenerateVideoResponse" where
  "finish request warns duration_ms output_path st =
     (case output_path of
        VStr p \<Rightarrow>
          if \<not> path_exists (fs st) p
          then Inl (HTTPException 500
                      (''Video generation succeeded but output file not created: '' @ p))
          else Inr \<lparr> status = ''complete'', outputVideoPath = Some p,
                     frames = Some (numFrames request), durationMs = Some (int duration_ms),
                     seed = seed request, warnings = warns, error = None \<rparr>
      | _ \<Rightarrow>
          Inl (Unhandled (Exception ''expected str, bytes or os.PathLike object'')))"

text \<open>
  The body of the outer \<open>try\<close>, lines 132 to 252. The warnings come back beside the
  outcome, since the error response of line 258 carries them.
\<close>

definition generate_body ::
  "server_env \<Rightarrow> GenerateVideoRequest \<Rightarrow> server_state
     \<Rightarrow> (raised + GenerateVideoResponse) \<times> string list \<times> server_state" where
  "generate_body env request st0 =
     (let start_time = clock st0 in
      case makedirs (fs_faults env) (outputDir request) (fs st0) of
        Inl m \<Rightarrow> (Inl (Unhandled (Exception m)), [], st0)
      | Inr fs1 \<Rightarrow>
          (case load_phase env (st0\<lparr>fs := fs1\<rparr>) of
             (Inl e, st1) \<Rightarrow> (Inl e, [], st1)
           | (Inr generator, st1) \<Rightarrow>
               (case keyframe_phase env request of
                  Inl e \<Rightarrow> (Inl e, [], st1)
                | Inr (start_image, warns) \<Rightarrow>
                    (case worker_phase env generator (sampling_param request start_image) st1 of
                       (Inl e, st2) \<Rightarrow> (Inl e, warns, st2)
                     | (Inr result, st2) \<Rightarrow>
                         (let duration_ms = clock st2 - start_time in
                          case resolve_output env request result st2 of
                            (Inl e, st3) \<Rightarrow> (Inl (Unhandled e), warns, st3)
                          | (Inr output_path, st3) \<Rightarrow>
                              (finish request warns duration_ms output_path st3, warns, st3))))))"

text \<open>
  Lines 254 to 262: an \<open>HTTPException\<close> leaves the handler (the framework answers with its
  status code and detail); any other exception becomes an error response with status 200.
\<close>

definition generate_video ::
  "server_env \<Rightarrow> GenerateVideoRequest \<Rightarrow> server_state \<Rightarrow> http_response \<times> server_state" where
  "generate_video env request st =
     (case generate_body env request st of
        (Inr response, warns, st') \<Rightarrow> (JsonResponse response, st')
      | (Inl (HTTPException code detail), warns, st') \<Rightarrow> (ErrorResponse code detail, st')
      | (Inl (Unhandled e), warns, st') \<Rightarrow>
          (JsonResponse \<lparr> status = ''error'', outputVideoPath = None, frames = None,
                          durationMs = None, seed = None, warnings = warns,
                          error = Some (str_exn e) \<rparr>, st'))"

text \<open>
  \<open>POST /generate\<close>: the framework validates the body against \<open>GenerateVideoRequest\<close>
  before the handler runs, and answers an invalid body itself with status 422, naming the
  offending fields.
\<close>

definition post_generate ::
  "server_env \<Rightarrow> raw_request \<Rightarrow> server_state \<Rightarrow> http_response \<times> server_state" where
  "post_generate env raw st =
     (case validate raw of
        Inl errs \<Rightarrow> (ErrorResponse 422 (join_sep '', '' errs), st)
      | Inr request \<Rightarrow> generate_video env request st)"

section \<open>The done marker: comfyui_nodes/write_done_marker.py\<close>

text \<open>
  The process as the marker writer sees it: the disk, the system calls made so far (in
  order, whether they succeeded or not), the lines printed, and what \<open>iso_now()\<close> returns
  (the UTC time, already formatted).
\<close>

datatype syscall =
  SysMakedirs string
| SysOpen string
| SysWrite string string
| SysFlush string
| SysFsync string
| SysClose string
| SysReplace string string
| SysExists string
| SysRemove string

record marker_world =
  disk :: filesys
  trace :: "syscall list"
  printed :: "string list"
  utc_now :: string

text \<open>
  One system call: it is recorded, and it either changes the disk or raises (the message).
\<close>

definition sys ::
  "syscall \<Rightarrow> (filesys \<Rightarrow> string + filesys) \<Rightarrow> marker_world \<Rightarrow> string option \<times> marker_world" where
  "sys c effect w =
     (case effect (disk w) of
        Inl m \<Rightarrow> (Some m, w\<lparr>trace := trace w @ [c]\<rparr>)
      | Inr d \<Rightarrow> (None, w\<lparr>disk := d, trace := trace w @ [c]\<rparr>))"

definition print_line :: "string \<Rightarrow> marker_world \<Rightarrow> marker_world" where
  "print_line s w = w\<lparr>printed := printed w @ [s]\<rparr>"

text \<open>\<open>f.flush()\<close> and \<open>os.fsync\<close> change nothing on the modelled disk; they can only fail.\<close>

definition sync_effect :: "faults \<Rightarrow> fs_op \<Rightarrow> string \<Rightarrow> filesys \<Rightarrow> string + filesys" where
  "sync_effect flt k name d =
     (if flt k (resolve (cwd d) name) then Inl ''Input/output error'' else Inr d)"

text \<open>Statements in sequence: the first exception ends the block.\<close>

fun in_sequence ::
  "(marker_world \<Rightarrow> string option \<times> marker_world) list \<Rightarrow> marker_world
     \<Rightarrow> string option \<times> marker_world" where
  "in_sequence [] w = (None, w)"
| "in_sequence (step # steps) w =
     (case step w of
        (Some exc, w') \<Rightarrow> (Some exc, w')
      | (None, w') \<Rightarrow> in_sequence steps w')"

text \<open>\<open>with open(path, 'w') as f: body\<close>: the file is closed however the body ends.\<close>

definition with_open ::
  "faults \<Rightarrow> string \<Rightarrow> (marker_world \<Rightarrow> string option \<times> marker_world) \<Rightarrow> marker_world
     \<Rightarrow> string option \<times> marker_world" where
  "with_open flt name body w =
     (case sys (SysOpen name) (open_w flt name) w of
        (Some exc, w1) \<Rightarrow> (Some exc, w1)
      | (None, w1) \<Rightarrow>
          (case body w1 of
             (r, w2) \<Rightarrow> (r, w2\<lparr>trace := trace w2 @ [SysClose name]\<rparr>)))"

text \<open>\<open>try: os.fsync(f.fileno()) except Exception: pass\<close>.\<close>

definition fsync_ignoring ::
  "faults \<Rightarrow> string \<Rightarrow> marker_world \<Rightarrow> string option \<times> marker_world" where
  "fsync_ignoring flt name w = (None, snd (sys (SysFsync name) (sync_effect flt OpFsync name) w))"

text \<open>\<open>json.dump(payload, f)\<close> for the payload of the marker.\<close>

definition payload_json :: "string \<Rightarrow> int option \<Rightarrow> string" where
  \<open>payload_json timestamp frame_count =
     ''{"Timestamp": "'' @ timestamp @ ''"''
     @ (case frame_count of None \<Rightarrow> [] | Some n \<Rightarrow> '', "FrameCount": '' @ str_int n)
     @ ''}''\<close>

text \<open>Lines 50 to 61: the temporary file, then the rename.\<close>

definition write_tmp ::
  "faults \<Rightarrow> string \<Rightarrow> string \<Rightarrow> marker_world \<Rightarrow> string option \<times> marker_world" where
  "write_tmp flt tmp_path payload =
     with_open flt tmp_path
       (in_sequence
          [sys (SysWrite tmp_path payload) (write_text flt tmp_path payload),
           sys (SysFlush tmp_path) (sync_effect flt OpFlush tmp_path),
           fsync_ignoring flt tmp_path])"

definition atomic_publish ::
  "faults \<Rightarrow> string \<Rightarrow> string \<Rightarrow> string \<Rightarrow> marker_world \<Rightarrow> string option \<times> marker_world" where
  "atomic_publish flt tmp_path final_path payload =
     in_sequence
       [write_tmp flt tmp_path payload,
        sys (SysReplace tmp_path final_path) (replace flt tmp_path final_path)]"

text \<open>Lines 70 to 74: the temporary file is removed if it is there; a failure is ignored.\<close>

definition remove_tmp :: "faults \<Rightarrow> string \<Rightarrow> marker_world \<Rightarrow> marker_world" where
  "remove_tmp flt tmp_path w =
     (let w1 = w\<lparr>trace := trace w @ [SysExists tmp_path]\<rparr>
      in if path_exists (disk w1) tmp_path
         then snd (sys (SysRemove tmp_path) (remove flt tmp_path) w1)
         else w1)"

text \<open>Lines 66 to 79: the handler of the outer \<open>try\<close>.\<close>

definition fallback_write ::
  "faults \<Rightarrow> string \<Rightarrow> string \<Rightarrow> string \<Rightarrow> string \<Rightarrow> marker_world \<Rightarrow> bool \<times> marker_world" where
  "fallback_write flt tmp_path final_path payload exc w =
     (let w1 = print_line (''[WriteDoneMarker] Atomic rename failed: '' @ exc
                           @ ''; falling back to direct write.'') w
      in case with_open flt final_path
                (sys (SysWrite final_path payload) (write_text flt final_path payload)) w1 of
           (None, w2) \<Rightarrow>
             (True,
              print_line (''[WriteDoneMarker] Created done marker with fallback write: '' @ final_path)
                (remove_tmp flt tmp_path w2))
         | (Some exc2, w2) \<Rightarrow>
             (False, print_line (''[WriteDoneMarker] Failed to write final marker: '' @ exc2) w2))"

text \<open>
  \<open>write_done_marker\<close>. The result is \<open>Inr\<close> of the boolean returned, or \<open>Inl\<close> of the
  message of the exception that leaves the function (only \<open>os.makedirs\<close> is outside a
  \<open>try\<close>). The parameter \<open>prefix\<close> of the source is written \<open>pfx\<close> here.
\<close>

definition write_done_marker ::
  "faults \<Rightarrow> string \<Rightarrow> string \<Rightarrow> int option \<Rightarrow> string \<Rightarrow> marker_world
     \<Rightarrow> (string + bool) \<times> marker_world" where
  "write_done_marker flt output_dir pfx frame_count tmp_ext w =
     (case sys (SysMakedirs output_dir) (makedirs flt output_dir) w of
        (Some exc, w1) \<Rightarrow> (Inl exc, w1)
      | (None, w1) \<Rightarrow>
          (let final_name = pfx @ ''.done'';
               tmp_name = pfx @ ''.done'' @ tmp_ext;
               final_path = path_join output_dir final_name;
               tmp_path = path_join output_dir tmp_name;
               payload = payload_json (utc_now w1) frame_count
           in case atomic_publish flt tmp_path final_path payload w1 of
                (None, w2) \<Rightarrow>
                  (Inr True,
                   print_line (''[WriteDoneMarker] Created done marker atomically: '' @ final_path) w2)
              | (Some exc, w2) \<Rightarrow>
                  (case fallback_write flt tmp_path final_path payload exc w2 of
                     (ok, w3) \<Rightarrow> (Inr ok, w3))))"

text \<open>The paths of the marker and of its temporary file, as the function computes them.\<close>

definition final_path_of :: "string \<Rightarrow> string \<Rightarrow> string" where
  "final_path_of output_dir pfx = path_join output_dir (pfx @ ''.done'')"

definition tmp_path_of :: "string \<Rightarrow> string \<Rightarrow> string \<Rightarrow> string" where
  "tmp_path_of output_dir pfx tmp_ext = path_join output_dir (pfx @ ''.done'' @ tmp_ext)"


text \<open>
  When the system calls of the marker writer succeed, as conditions on the disk and the
  faults: \<open>open(name, 'w')\<close>; writing the temporary file (open, write, flush);
  \<open>os.replace\<close> onto \<open>final\<close> of a file that exists; the direct write of the marker.
\<close>

definition can_open :: "faults \<Rightarrow> filesys \<Rightarrow> string \<Rightarrow> bool" where
  "can_open flt d name =
     (let p = resolve (cwd d) name
      in p \<noteq> [] \<and> \<not> is_dir d p \<and> is_dir d (butlast p) \<and> \<not> flt OpOpen p)"

definition tmp_written :: "faults \<Rightarrow> filesys \<Rightarrow> string \<Rightarrow> bool" where
  "tmp_written flt d tmp =
     (can_open flt d tmp \<and> \<not> flt OpWrite (resolve (cwd d) tmp)
      \<and> \<not> flt OpFlush (resolve (cwd d) tmp))"

definition can_replace :: "faults \<Rightarrow> filesys \<Rightarrow> string \<Rightarrow> bool" where
  "can_replace flt d final =
     (let q = resolve (cwd d) final
      in q \<noteq> [] \<and> \<not> is_dir d q \<and> is_dir d (butlast q) \<and> \<not> flt OpReplace q)"

definition can_write :: "faults \<Rightarrow> filesys \<Rightarrow> string \<Rightarrow> bool" where
  "can_write flt d final = (can_open flt d final \<and> \<not> flt OpWrite (resolve (cwd d) final))"

text \<open>The world once the temporary file has been written, and the line that reports the fallback.\<close>

definition after_tmp :: "marker_world \<Rightarrow> string \<Rightarrow> string \<Rightarrow> marker_world" where
  "after_tmp w tmp payload =
     w\<lparr>disk := (disk w)\<lparr>files := (files (disk w))(resolve (cwd (disk w)) tmp \<mapsto> payload)\<rparr>,
       trace := trace w @ [SysOpen tmp, SysWrite tmp payload, SysFlush tmp, SysFsync tmp,
                           SysClose tmp]\<rparr>"

definition degraded_line :: "string \<Rightarrow> string" where
  "degraded_line exc =
     ''[WriteDoneMarker] Atomic rename failed: '' @ exc @ ''; falling back to direct write.''"

text \<open>
  Example machines: no fault at all; every \<open>os.replace\<close> refused (a rename across
  devices); that, with the marker itself unopenable as well. Example disks: one without the
  output directory, the same once \<open>out/frames\<close> has been made, and one where \<open>out\<close> exists.
\<close>

definition no_faults :: faults where
  "no_faults = (\<lambda>k p. False)"

definition cross_device :: faults where
  "cross_device = (\<lambda>k p. k = OpReplace)"

definition marker_locked :: faults where
  "marker_locked = (\<lambda>k p. k = OpReplace \<or> (k = OpOpen \<and> p = [''home'', ''out'', ''frames'', ''scene-001.done'']))"

definition example_world :: marker_world where
  "example_world =
     \<lparr> disk = \<lparr> cwd = [''home''], dirs = {[''home'']}, files = Map.empty \<rparr>,
       trace = [], printed = [], utc_now = ''2025-11-03T10:00:00Z'' \<rparr>"

definition example_disk1 :: filesys where
  "example_disk1 =
     \<lparr> cwd = [''home''],
       dirs = {[''home'', ''out'', ''frames''], [''home'', ''out''], [''home'']},
       files = Map.empty \<rparr>"


section \<open>The waiter: test_workflow.py\<close>

text \<open>
  What one call of \<open>ws.recv()\<close> delivers: an empty message, text that is not JSON, a JSON
  message with its \<open>type\<close> (and the fields of \<open>data\<close> that the waiter reads, when present),
  or an exception raised by the call or by the handling of the message (its text).
\<close>

datatype event =
  Executing "string option"
| Progress "int option" "int option"
| Executed
| ErrorEvent "string option"
| OtherEvent string

datatype received = Empty | Malformed | Message event | RecvError string

text \<open>
  The server and the network. The clock counts ticks, \<open>ticks_per_second\<close> of them in a
  second, so that \<open>time.time()\<close> is the clock divided by that number. \<open>connect\<close> is how
  the attempt to connect to a URL ends and how long that takes when nothing cuts it short;
  \<open>recv\<close> is, for the \<open>i\<close>-th call of \<open>ws.recv()\<close>, what the server sends next and how
  long after the call it arrives; \<open>close\<close> is, for a call of \<open>ws.close()\<close> made after
  \<open>i\<close> receives, the exception it raises, if any, and how long it takes.
\<close>

record ws_env =
  ticks_per_second :: nat
  connect :: "string \<Rightarrow> (string + unit) \<times> nat"
  recv :: "nat \<Rightarrow> received \<times> nat"
  close :: "nat \<Rightarrow> string option \<times> nat"

text \<open>
  \<open>websocket.create_connection(url, timeout=secs)\<close>: an attempt that has not ended when
  the timeout has passed raises at that moment. The connection it returns is
  represented by the timeout of its socket, in ticks.
\<close>

definition create_connection :: "ws_env \<Rightarrow> string \<Rightarrow> nat \<Rightarrow> (string + nat) \<times> nat" where
  "create_connection env url secs =
     (case connect env url of
        (r, dt) \<Rightarrow>
          if secs * ticks_per_second env \<le> dt
          then (Inl ''timed out'', secs * ticks_per_second env)
          else (case r of
                  Inl e \<Rightarrow> (Inl e, dt)
                | Inr u \<Rightarrow> (Inr (secs * ticks_per_second env), dt)))"

text \<open>
  \<open>ws.recv()\<close> on a connection with socket timeout \<open>ws\<close>, taken as one read of the
  socket: it delivers what arrives before the timeout has passed, and raises at the
  timeout otherwise.
\<close>

definition ws_recv :: "ws_env \<Rightarrow> nat \<Rightarrow> nat \<Rightarrow> received \<times> nat" where
  "ws_recv env ws i =
     (case recv env i of
        (r, dt) \<Rightarrow> if ws \<le> dt then (RecvError ''timed out'', ws) else (r, dt))"

text \<open>The calls of \<open>print\<close>, with what they show.\<close>

datatype shown_line =
  ShowWaiting nat
| ShowExecuting "string option"
| ShowProgress int int
| ShowComplete
| ShowError string
| ShowWsError string
| ShowTimeout nat
| ShowConnectionError string

record waiter =
  wclock :: nat
  recvs :: nat
  last_progress :: int
  shown :: "shown_line list"
  ws_open :: bool

definition show_line :: "shown_line \<Rightarrow> waiter \<Rightarrow> waiter" where
  "show_line l st = st\<lparr>shown := shown st @ [l]\<rparr>"

text \<open>\<open>ws.close()\<close>: it takes its time, and it may raise.\<close>

definition ws_close :: "ws_env \<Rightarrow> waiter \<Rightarrow> string option \<times> waiter" where
  "ws_close env st =
     (case close env (recvs st) of
        (r, dt) \<Rightarrow>
          (r, st\<lparr>wclock := wclock st + dt,
                 ws_open := (case r of None \<Rightarrow> False | Some e \<Rightarrow> ws_open st)\<rparr>))"

text \<open>
  Lines 124 to 159, the body of the loop: one receive and what is done with it. The result
  is the value to return, if the body returns, and the state. An exception of
  \<open>ws.close()\<close> in lines 146 and 152 is caught by line 157 as any other: it is printed and
  the loop goes on.
\<close>

definition handle_recv :: "ws_env \<Rightarrow> nat \<Rightarrow> waiter \<Rightarrow> bool option \<times> waiter" where
  "handle_recv env ws st =
     (case ws_recv env ws (recvs st) of
        (r, dt) \<Rightarrow>
          (let st1 = st\<lparr>wclock := wclock st + dt, recvs := Suc (recvs st)\<rparr>
           in case r of
                Empty \<Rightarrow> (None, st1)
              | Malformed \<Rightarrow> (None, st1)
              | RecvError e \<Rightarrow> (None, show_line (ShowWsError e) st1)
              | Message (Executing node) \<Rightarrow> (None, show_line (ShowExecuting node) st1)
              | Message (Progress v m) \<Rightarrow>
                  (let progress = field_default 0 v; max_progress = field_default 100 m
                   in if progress \<noteq> last_progress st1
                      then (None, (show_line (ShowProgress progress max_progress) st1)
                                    \<lparr>last_progress := progress\<rparr>)
                      else (None, st1))
              | Message Executed \<Rightarrow>
                  (case ws_close env (show_line ShowComplete st1) of
                     (None, st2) \<Rightarrow> (Some True, st2)
                   | (Some e, st2) \<Rightarrow> (None, show_line (ShowWsError e) st2))
              | Message (ErrorEvent m) \<Rightarrow>
                  (case ws_close env
                          (show_line (ShowError (field_default ''Unknown error'' m)) st1) of
                     (None, st2) \<Rightarrow> (Some False, st2)
                   | (Some e, st2) \<Rightarrow> (None, show_line (ShowWsError e) st2))
              | Message (OtherEvent ty) \<Rightarrow> (None, st1)))"

text \<open>
  Lines 123 to 163: the loop and what follows it. \<open>timeout\<close> is in seconds. The loop may
  run for ever (when the clock does not advance), so its result is optional. An exception
  of \<open>ws.close()\<close> in line 161 reaches the handler of line 165.
\<close>

partial_function (option) wait_loop ::
  "ws_env \<Rightarrow> nat \<Rightarrow> nat \<Rightarrow> nat \<Rightarrow> waiter \<Rightarrow> (bool \<times> waiter) option" where
  "wait_loop env ws timeout start_time st =
     (if wclock st - start_time < timeout * ticks_per_second env
      then (case handle_recv env ws st of
              (Some b, st') \<Rightarrow> Some (b, st')
            | (None, st') \<Rightarrow> wait_loop env ws timeout start_time st')
      else (case ws_close env st of
              (None, st') \<Rightarrow> Some (False, show_line (ShowTimeout timeout) st')
            | (Some e, st') \<Rightarrow> Some (False, show_line (ShowConnectionError e) st')))"

text \<open>\<open>wait_for_completion\<close>; \<open>prompt_id\<close> is not used by the body.\<close>

definition wait_for_completion ::
  "ws_env \<Rightarrow> string \<Rightarrow> string \<Rightarrow> nat \<Rightarrow> waiter \<Rightarrow> (bool \<times> waiter) option" where
  "wait_for_completion env prompt_id client_id timeout st0 =
     (let st = show_line (ShowWaiting timeout) st0;
          ws_url = ''ws://127.0.0.1:8188/ws?clientId='' @ client_id
      in case create_connection env ws_url 10 of
           (Inl e, dt) \<Rightarrow>
             Some (False, show_line (ShowConnectionError e) (st\<lparr>wclock := wclock st + dt\<rparr>))
         | (Inr ws, dt) \<Rightarrow>
             (let st1 = st\<lparr>wclock := wclock st + dt, ws_open := True, last_progress := 0\<rparr>
              in wait_loop env ws timeout (wclock st1) st1))"

text \<open>
  Names for the statements about the waiter: the terminal events; the receives that end
  the wait (a terminal event after which \<open>ws.close()\<close> does not raise); the time one
  round of the loop takes (the receive, and the close when the event is terminal); the
  time that \<open>k\<close> rounds take from the \<open>i\<close>-th receive on; what a call returned, when,
  and the last line it printed.
\<close>

fun terminal :: "received \<Rightarrow> bool" where
  "terminal (Message Executed) = True"
| "terminal (Message (ErrorEvent m)) = True"
| "terminal r = False"

definition ends_wait :: "ws_env \<Rightarrow> nat \<Rightarrow> nat \<Rightarrow> bool" where
  "ends_wait env ws i = (terminal (fst (ws_recv env ws i)) \<and> fst (close env (Suc i)) = None)"

definition round_time :: "ws_env \<Rightarrow> nat \<Rightarrow> nat \<Rightarrow> nat" where
  "round_time env ws i =
     snd (ws_recv env ws i)
       + (if terminal (fst (ws_recv env ws i)) then snd (close env (Suc i)) else 0)"

fun elapsed :: "ws_env \<Rightarrow> nat \<Rightarrow> nat \<Rightarrow> nat \<Rightarrow> nat" where
  "elapsed env ws i 0 = 0"
| "elapsed env ws i (Suc k) = round_time env ws i + elapsed env ws (Suc i) k"

definition returned :: "(bool \<times> waiter) option \<Rightarrow> bool option" where
  "returned r = map_option fst r"

definition returned_at :: "(bool \<times> waiter) option \<Rightarrow> nat option" where
  "returned_at r = map_option (\<lambda>x. wclock (snd x)) r"

definition last_shown :: "(bool \<times> waiter) option \<Rightarrow> shown_line option" where
  "last_shown r = map_option (\<lambda>x. last (shown (snd x))) r"

text \<open>
  Example servers, with one tick of the clock a second: all but the last accept the
  connection after nine seconds, and close in one second. One never sends anything, so
  that every receive ends at the ten seconds of the socket timeout; one reports progress
  and then an error; one reports progress and then completes; one is silent for 29
  receives and then sends \<open>executed\<close>, seven seconds into the 30th; the last refuses the
  connection.
\<close>

definition silent_ws :: ws_env where
  "silent_ws =
     \<lparr> ticks_per_second = 1,
       connect = (\<lambda>url. (Inr (), 9)),
       recv = (\<lambda>i. (Empty, 3600)),
       close = (\<lambda>i. (None, 1)) \<rparr>"

definition failing_ws :: ws_env where
  "failing_ws =
     \<lparr> ticks_per_second = 1,
       connect = (\<lambda>url. (Inr (), 9)),
       recv = (\<lambda>i. if i = 2 then (Message (ErrorEvent (Some ''out of memory'')), 5)
                    else (Message (Progress (Some (int i)) None), 5)),
       close = (\<lambda>i. (None, 1)) \<rparr>"

definition completing_ws :: ws_env where
  "completing_ws =
     \<lparr> ticks_per_second = 1,
       connect = (\<lambda>url. (Inr (), 9)),
       recv = (\<lambda>i. if i = 2 then (Message Executed, 5)
                    else (Message (Progress (Some (int i)) None), 5)),
       close = (\<lambda>i. (None, 1)) \<rparr>"

definition late_ws :: ws_env where
  "late_ws =
     \<lparr> ticks_per_second = 1,
       connect = (\<lambda>url. (Inr (), 9)),
       recv = (\<lambda>i. if i = 29 then (Message Executed, 7) else (Empty, 3600)),
       close = (\<lambda>i. (None, 1)) \<rparr>"

definition unreachable_ws :: ws_env where
  "unreachable_ws =
     \<lparr> ticks_per_second = 1,
       connect = (\<lambda>url. (Inl ''Connection refused'', 1)),
       recv = (\<lambda>i. (Empty, 1)),
       close = (\<lambda>i. (None, 1)) \<rparr>"

definition fresh_waiter :: waiter where
  "fresh_waiter = \<lparr> wclock = 0, recvs = 0, last_progress = 0, shown = [], ws_open = False \<rparr>"

section \<open>Example inputs\<close>

text \<open>
  A machine for the concrete runs below: the model loads (or not) as given, the worker
  answers as given in a quarter of a second, one base64 text decodes, and no fault is injected.
\<close>

definition example_env :: "(string + nat) \<Rightarrow> (string + worker_result) \<Rightarrow> server_env" where
  "example_env load_outcome worker_outcome =
     \<lparr> b64decode = (\<lambda>s. if s = ''QUJD'' then Inr ''ABC'' else Inl ''Incorrect padding''),
       image_open = (\<lambda>d. Inr \<lparr> img_size = (300, 300), mode = ''P'', pixels = 0 \<rparr>),
       loader = (\<lambda>n. (load_outcome, 1500)),
       worker = (\<lambda>g sp fs. (worker_outcome, fs, 250)),
       mimsave = (\<lambda>name video_frames f fs. write_text (\<lambda>k p. False) name ''mp4'' fs),
       fs_faults = (\<lambda>k p. False) \<rparr>"

definition example_state :: server_state where
  "example_state =
     \<lparr> fs = \<lparr> cwd = [''srv''], dirs = {[''srv'']}, files = Map.empty \<rparr>,
       g_generator = None, clock = 1000, load_count = 0, worker_calls = [] \<rparr>"

definition example_raw :: raw_request where
  "example_raw =
     \<lparr> raw_prompt = Some ''a cat'', raw_negativePrompt = None, raw_keyframeBase64 = None,
       raw_fps = None, raw_numFrames = Some 25, raw_width = Some 576, raw_height = Some 1024,
       raw_seed = None, raw_outputDir = Some ''out'' \<rparr>"

definition example_request :: GenerateVideoRequest where
  "example_request =
     \<lparr> prompt = ''a cat'', negativePrompt = None, keyframeBase64 = None,
       fps = 16, numFrames = 25, width = 576, height = 1024,
       seed = None, outputDir = ''out'' \<rparr>"

section \<open>The failure signatures, by name\<close>

definition oom_signature :: "string \<Rightarrow> bool" where
  "oom_signature m = (sublist ''CUDA out of memory'' m \<or> sublist ''OutOfMemoryError'' m)"

definition model_signature :: "string \<Rightarrow> bool" where
  "model_signature m = (sublist ''No such file'' m \<or> sublist ''model'' (lower m))"

section \<open>Out-of-range requests, by name\<close>

text \<open>A body with a numeric field outside the range the request model declares for it.\<close>

definition out_of_range :: "raw_request \<Rightarrow> bool" where
  "out_of_range raw =
     (\<not> (8 \<le> field_default 16 (raw_fps raw) \<and> field_default 16 (raw_fps raw) \<le> 30)
      \<or> \<not> (8 \<le> field_default 121 (raw_numFrames raw) \<and> field_default 121 (raw_numFrames raw) \<le> 300)
      \<or> \<not> (256 \<le> field_default 1280 (raw_width raw) \<and> field_default 1280 (raw_width raw) \<le> 1920)
      \<or> \<not> (256 \<le> field_default 544 (raw_height raw) \<and> field_default 544 (raw_height raw) \<le> 1080))"

section \<open>Paths\<close>

lemma split_char_nonempty: "split_char c s \<noteq> []"
  by (induction s) (auto split: list.splits)

lemma split_char_no_sep: "c \<notin> set e \<Longrightarrow> split_char c e = [e]"
  by (induction e) auto

lemma split_char_Cons_other:
  "x \<noteq> c \<Longrightarrow> split_char c (x # s) = (x # hd (split_char c s)) # tl (split_char c s)"
  using split_char_nonempty [of c s] by (cases "split_char c s") auto


lemma split_char_append_tail:
  assumes "c \<notin> set e"
  shows "split_char c (s @ e) = butlast (split_char c s) @ [last (split_char c s) @ e]"
proof (induction s)
  case Nil
  with assms show ?case by (simp add: split_char_no_sep)
next
  case (Cons x s)
  from split_char_nonempty [of c s] obtain p ps where ps: "split_char c s = p # ps"
    by (cases "split_char c s") auto
  show ?case
  proof (cases "x = c")
    case True
    with Cons ps show ?thesis by simp
  next
    case False
    show ?thesis
    proof (cases ps)
      case Nil
      with False Cons ps show ?thesis by simp
    next
      case (Cons q qs)
      with False Cons.IH ps show ?thesis by simp
    qed
  qed
qed




lemma path_join_append:
  "b \<noteq> [] \<Longrightarrow> path_join d (b @ e) = path_join d b @ e"
  by (cases b) (auto simp: path_join_def)

lemma path_join_suffix:
  "b \<noteq> [] \<Longrightarrow> suffix b (path_join d b)"
  by (auto simp: path_join_def suffix_def)

lemma parts_append_tail:
  assumes "CHR ''/'' \<notin> set e" and "suffix ''.done'' s"
  shows "\<exists>ps l. parts s = ps @ [l] \<and> parts (s @ e) = ps @ [l @ e] \<and> l \<noteq> []"
proof -
  from assms(2) obtain s0 where s: "s = s0 @ ''.done''" by (auto simp: suffix_def)
  let ?sp = "split_char CHR ''/'' s0"
  have a: "split_char CHR ''/'' s = butlast ?sp @ [last ?sp @ ''.done'']"
    unfolding s by (rule split_char_append_tail) simp
  have "split_char CHR ''/'' (s @ e) = split_char CHR ''/'' (s0 @ (''.done'' @ e))"
    by (simp add: s)
  also have "\<dots> = butlast ?sp @ [last ?sp @ (''.done'' @ e)]"
    using assms(1) by (intro split_char_append_tail) simp
  finally have b: "split_char CHR ''/'' (s @ e) = butlast ?sp @ [(last ?sp @ ''.done'') @ e]"
    by simp
  have n1: "last ?sp @ ''.done'' \<noteq> ''.''" and n2: "(last ?sp @ ''.done'') @ e \<noteq> ''.''"
    by (auto simp: append_eq_Cons_conv)
  let ?ps = "filter (\<lambda>c. c \<noteq> [] \<and> c \<noteq> ''.'') (butlast ?sp)"
  have "parts s = ?ps @ [last ?sp @ ''.done'']" using n1 by (simp add: parts_def a)
  moreover have "parts (s @ e) = ?ps @ [(last ?sp @ ''.done'') @ e]"
    unfolding parts_def b using n2 by simp
  ultimately show ?thesis by blast
qed

lemma marker_paths:
  assumes "CHR ''/'' \<notin> set tmp_ext"
  shows "\<exists>dir l. resolve c (final_path_of output_dir pfx) = dir @ [l]
               \<and> resolve c (tmp_path_of output_dir pfx tmp_ext) = dir @ [l @ tmp_ext]
               \<and> l \<noteq> []"
proof -
  let ?b = "pfx @ ''.done''"
  let ?F = "path_join output_dir ?b"
  have t: "tmp_path_of output_dir pfx tmp_ext = ?F @ tmp_ext"
    using path_join_append [of ?b output_dir tmp_ext] by (simp add: tmp_path_of_def)
  have "suffix ?b ?F" by (rule path_join_suffix) simp
  then have sf: "suffix ''.done'' ?F" by (auto simp: suffix_def)
  from parts_append_tail [OF assms sf] obtain ps l
    where p: "parts ?F = ps @ [l]" "parts (?F @ tmp_ext) = ps @ [l @ tmp_ext]" "l \<noteq> []"
    by blast
  have ne: "?F \<noteq> []" using sf by (auto simp: suffix_def)
  then have "is_abs (?F @ tmp_ext) = is_abs ?F" by (cases ?F) (auto simp: is_abs_def)
  with p t show ?thesis by (simp add: resolve_def final_path_of_def)
qed

section \<open>The adapter: classification of worker failures\<close>

lemma worker_raises:
  assumes "makedirs (fs_faults env) (outputDir request) (fs st) = Inr fs1"
      and "load_phase env (st\<lparr>fs := fs1\<rparr>) = (Inr g, st1)"
      and "keyframe_phase env request = Inr (img, warns)"
      and "worker env g (sampling_param request img) (fs st1) = (Inl error_msg, fs2, dt)"
  shows "generate_body env request st =
           (Inl (classify_error error_msg), warns,
            st1\<lparr>fs := fs2, clock := clock st1 + dt,
                worker_calls := worker_calls st1 @ [sampling_param request img]\<rparr>)"
  using assms by (simp add: generate_body_def worker_phase_def)

lemma load_phase_raises:
  "load_phase env st = (Inl e, st') \<Longrightarrow> \<exists>m. e = HTTPException 500 m"
  by (auto simp: load_phase_def split: sum.splits prod.splits)

lemma keyframe_phase_raises:
  "keyframe_phase env request = Inl e \<Longrightarrow> \<exists>m. e = HTTPException 400 m"
  by (auto simp: keyframe_phase_def split: sum.splits if_splits)

lemma classify_error_507:
  "classify_error m = HTTPException 507 d \<Longrightarrow> oom_signature m"
  by (auto simp: classify_error_def oom_signature_def split: if_splits)

lemma worker_phase_507:
  assumes "worker_phase env g sp st = (Inl (HTTPException 507 d), st')"
  shows "\<exists>m fs' dt. worker env g sp (fs st) = (Inl m, fs', dt) \<and> oom_signature m"
proof (cases "worker env g sp (fs st)")
  case (fields outcome fs' dt)
  show ?thesis
  proof (cases outcome)
    case (Inl m)
    with fields assms have "classify_error m = HTTPException 507 d"
      by (simp add: worker_phase_def)
    then have "oom_signature m" by (rule classify_error_507)
    with fields Inl show ?thesis by blast
  next
    case (Inr result)
    with fields assms have "classify_error ''Generator returned empty results'' = HTTPException 507 d"
      by (simp add: worker_phase_def Let_def split: if_splits)
    then have "oom_signature ''Generator returned empty results''" by (rule classify_error_507)
    then show ?thesis by (simp add: oom_signature_def sublist_Cons_right)
  qed
qed

lemma finish_raises:
  "finish request warns dur v st = Inl e \<Longrightarrow> e \<noteq> HTTPException 507 d"
  by (auto simp: finish_def split: dict_value.splits if_splits)

lemma status_507_body:
  assumes "generate_body env request st = (Inl (HTTPException 507 d), warns, st')"
  shows "\<exists>g sp fs0 m fs' dt. worker env g sp fs0 = (Inl m, fs', dt) \<and> oom_signature m"
proof -
  from assms obtain g sp st1 st2 where "worker_phase env g sp st1 = (Inl (HTTPException 507 d), st2)"
    by (auto simp: generate_body_def Let_def split: sum.splits prod.splits
             dest: load_phase_raises keyframe_phase_raises finish_raises)
  from worker_phase_507 [OF this] show ?thesis by blast
qed

lemma status_507:
  assumes "http_status (fst (post_generate env raw st)) = 507"
  shows "\<exists>g sp fs0 m fs' dt. worker env g sp fs0 = (Inl m, fs', dt) \<and> oom_signature m"
proof (cases "validate raw")
  case (Inl errs)
  with assms show ?thesis by (simp add: post_generate_def)
next
  case (Inr request)
  obtain r warns st' where b: "generate_body env request st = (r, warns, st')"
    by (cases "generate_body env request st") auto
  with assms Inr have "\<exists>d. r = Inl (HTTPException 507 d)"
    by (auto simp: post_generate_def generate_video_def split: sum.splits raised.splits)
  with b status_507_body show ?thesis by blast
qed


lemmas example_defs = example_env_def example_state_def example_request_def

text \<open>
  Claim C4. When the worker raises, the adapter answers by the first signature that its
  error text matches: an out-of-memory signature gives status 507 with a fixed advice text,
  whatever else the text contains; otherwise a missing-model signature gives status 500 and
  "Model not found or corrupted: " followed by the text; otherwise status 500 and
  "Generation failed: " followed by the text, unchanged. Status 507 is reserved: no request
  is answered with it unless the worker raised a text with the out-of-memory signature.
\<close>

theorem worker_failure_classified:
  assumes "makedirs (fs_faults env) (outputDir request) (fs st) = Inr fs1"
      and "load_phase env (st\<lparr>fs := fs1\<rparr>) = (Inr g, st1)"
      and "keyframe_phase env request = Inr (img, warns)"
      and "worker env g (sampling_param request img) (fs st1) = (Inl error_msg, fs2, dt)"
  shows "fst (generate_video env request st) =
           (if oom_signature error_msg
            then ErrorResponse 507
                   ''CUDA OOM: Try reducing numFrames, resolution, or closing other GPU processes''
            else if model_signature error_msg
            then ErrorResponse 500 (''Model not found or corrupted: '' @ error_msg)
            else ErrorResponse 500 (''Generation failed: '' @ error_msg))
         \<and> (\<forall>env' raw st'. http_status (fst (post_generate env' raw st')) = 507 \<longrightarrow>
               (\<exists>g' sp fs0 m fs' dt'. worker env' g' sp fs0 = (Inl m, fs', dt') \<and> oom_signature m))"
proof -
  have "generate_video env request st =
          (case classify_error error_msg of
             HTTPException code detail \<Rightarrow>
               (ErrorResponse code detail,
                st1\<lparr>fs := fs2, clock := clock st1 + dt,
                    worker_calls := worker_calls st1 @ [sampling_param request img]\<rparr>))"
    using worker_raises [OF assms]
    by (simp add: generate_video_def classify_error_def)
  then have "fst (generate_video env request st) =
           (if oom_signature error_msg
            then ErrorResponse 507
                   ''CUDA OOM: Try reducing numFrames, resolution, or closing other GPU processes''
            else if model_signature error_msg
            then ErrorResponse 500 (''Model not found or corrupted: '' @ error_msg)
            else ErrorResponse 500 (''Generation failed: '' @ error_msg))"
    by (simp add: classify_error_def oom_signature_def model_signature_def)
  with status_507 show ?thesis by blast
qed

lemma example_makedirs:
  "makedirs (fs_faults (example_env l w)) (outputDir example_request) (fs example_state)
     = Inr \<lparr> cwd = [''srv''], dirs = {[''srv'', ''out''], [''srv'']}, files = Map.empty \<rparr>"
  by (simp add: example_defs makedirs_def is_abs_def parts_def is_dir_def is_file_def)

lemma example_load:
  "load_phase (example_env (Inr 7) w) (example_state\<lparr>fs := f\<rparr>)
     = (Inr 7, example_state\<lparr>fs := f, g_generator := Some 7, load_count := 1, clock := 2500\<rparr>)"
  by (simp add: example_defs load_phase_def get_generator_def)

lemma example_keyframe:
  "keyframe_phase (example_env l w) example_request = Inr (None, [])"
  by (simp add: example_defs keyframe_phase_def truthy_def)

theorem worker_failure_classified_witness:
  "fst (generate_video (example_env (Inr 7) (Inl ''RuntimeError: CUDA out of memory; model gone''))
          example_request example_state)
     = ErrorResponse 507
         ''CUDA OOM: Try reducing numFrames, resolution, or closing other GPU processes''
   \<and> fst (generate_video (example_env (Inr 7) (Inl ''Cannot load Model weights''))
          example_request example_state)
     = ErrorResponse 500 ''Model not found or corrupted: Cannot load Model weights''
   \<and> fst (generate_video (example_env (Inr 7) (Inl ''ValueError: bad shape''))
          example_request example_state)
     = ErrorResponse 500 ''Generation failed: ValueError: bad shape''"
proof -
  let ?fs1 = "\<lparr> cwd = [''srv''], dirs = {[''srv'', ''out''], [''srv'']}, files = Map.empty \<rparr>"
  have w: "worker (example_env (Inr 7) (Inl m)) 7 (sampling_param example_request None)
             (fs (example_state\<lparr>fs := ?fs1, g_generator := Some 7, load_count := 1, clock := 2500\<rparr>))
           = (Inl m, ?fs1, 250)" for m
    by (simp add: example_env_def)
  have o1: "oom_signature ''RuntimeError: CUDA out of memory; model gone''"
    by (simp add: oom_signature_def sublist_Cons_right)
  have o2: "\<not> oom_signature ''Cannot load Model weights''"
    and m2: "model_signature ''Cannot load Model weights''"
    by (simp_all add: oom_signature_def model_signature_def sublist_Cons_right lower_def lower_char_def)
  have o3: "\<not> oom_signature ''ValueError: bad shape''"
    and m3: "\<not> model_signature ''ValueError: bad shape''"
    by (simp_all add: oom_signature_def model_signature_def sublist_Cons_right lower_def lower_char_def)
  note c = worker_failure_classified [OF example_makedirs example_load example_keyframe w, THEN conjunct1]
  from c [of "''RuntimeError: CUDA out of memory; model gone''"] o1
  have 1: "fst (generate_video (example_env (Inr 7) (Inl ''RuntimeError: CUDA out of memory; model gone''))
          example_request example_state)
     = ErrorResponse 507
         ''CUDA OOM: Try reducing numFrames, resolution, or closing other GPU processes''"
    by simp
  from c [of "''Cannot load Model weights''"] o2 m2
  have 2: "fst (generate_video (example_env (Inr 7) (Inl ''Cannot load Model weights''))
          example_request example_state)
     = ErrorResponse 500 ''Model not found or corrupted: Cannot load Model weights''"
    by simp
  from c [of "''ValueError: bad shape''"] o3 m3
  have 3: "fst (generate_video (example_env (Inr 7) (Inl ''ValueError: bad shape''))
          example_request example_state)
     = ErrorResponse 500 ''Generation failed: ValueError: bad shape''"
    by simp
  from 1 2 3 show ?thesis by simp
qed

section \<open>The adapter: a missing output file\<close>

lemma run_to_finish:
  assumes "makedirs (fs_faults env) (outputDir request) (fs st) = Inr fs1"
      and "load_phase env (st\<lparr>fs := fs1\<rparr>) = (Inr g, st1)"
      and "keyframe_phase env request = Inr (img, warns)"
      and "worker_phase env g (sampling_param request img) st1 = (Inr result, st2)"
      and "resolve_output env request result st2 = (Inr v, st3)"
  shows "generate_body env request st =
           (finish request warns (clock st2 - clock st) v st3, warns, st3)"
  using assms by (simp add: generate_body_def)

lemma finish_complete:
  assumes "finish request warns dur v st = Inr r"
  shows "status r = ''complete'' \<and> (\<exists>p. outputVideoPath r = Some p \<and> path_exists (fs st) p)"
  using assms by (auto simp: finish_def split: dict_value.splits if_splits)

lemma body_complete:
  assumes "generate_body env request st = (Inr r, warns, st')"
  shows "\<exists>p. outputVideoPath r = Some p \<and> path_exists (fs st') p"
proof -
  from assms obtain dur v where "finish request warns dur v st' = Inr r"
    by (auto simp: generate_body_def Let_def split: sum.splits prod.splits)
  from finish_complete [OF this] show ?thesis by simp
qed

lemma complete_exists:
  assumes "post_generate env raw st = (JsonResponse r, st')" and "status r = ''complete''"
  shows "\<exists>p. outputVideoPath r = Some p \<and> path_exists (fs st') p"
proof (cases "validate raw")
  case (Inl errs)
  with assms show ?thesis by (simp add: post_generate_def)
next
  case (Inr request)
  obtain b warns st2 where b: "generate_body env request st = (b, warns, st2)"
    by (cases "generate_body env request st") auto
  with assms Inr have "b = Inr r \<and> st2 = st'"
    by (auto simp: post_generate_def generate_video_def split: sum.splits raised.splits)
  with b body_complete show ?thesis by blast
qed

text \<open>
  Claim C5. When the worker has reported success and the resolved output path does not
  exist on disk, the request is answered with status 500 and "Video generation succeeded
  but output file not created: " followed by the path; and whatever the run, a response
  with status "complete" names a path that exists on disk when the response is made.
\<close>

theorem missing_output_detected:
  "(makedirs (fs_faults env) (outputDir request) (fs st) = Inr fs1 \<longrightarrow>
    load_phase env (st\<lparr>fs := fs1\<rparr>) = (Inr g, st1) \<longrightarrow>
    keyframe_phase env request = Inr (img, warns) \<longrightarrow>
    worker_phase env g (sampling_param request img) st1 = (Inr result, st2) \<longrightarrow>
    resolve_output env request result st2 = (Inr (VStr p), st3) \<longrightarrow>
    \<not> path_exists (fs st3) p \<longrightarrow>
    generate_video env request st =
      (ErrorResponse 500 (''Video generation succeeded but output file not created: '' @ p), st3))
   \<and> (fst (post_generate env raw st) = JsonResponse r \<longrightarrow> status r = ''complete'' \<longrightarrow>
        (\<exists>q. outputVideoPath r = Some q \<and> path_exists (fs (snd (post_generate env raw st))) q))"
proof (intro conjI impI)
  assume a: "makedirs (fs_faults env) (outputDir request) (fs st) = Inr fs1"
       "load_phase env (st\<lparr>fs := fs1\<rparr>) = (Inr g, st1)"
       "keyframe_phase env request = Inr (img, warns)"
       "worker_phase env g (sampling_param request img) st1 = (Inr result, st2)"
       "resolve_output env request result st2 = (Inr (VStr p), st3)"
     and n: "\<not> path_exists (fs st3) p"
  from run_to_finish [OF a] n
  show "generate_video env request st =
      (ErrorResponse 500 (''Video generation succeeded but output file not created: '' @ p), st3)"
    by (simp add: generate_video_def finish_def)
next
  assume "fst (post_generate env raw st) = JsonResponse r" and c: "status r = ''complete''"
  then have "post_generate env raw st = (JsonResponse r, snd (post_generate env raw st))"
    by (cases "post_generate env raw st") simp
  from complete_exists [OF this c]
  show "\<exists>q. outputVideoPath r = Some q \<and> path_exists (fs (snd (post_generate env raw st))) q" .
qed


lemma example_validate: "validate example_raw = Inr example_request"
  by (simp add: validate_def example_raw_def example_request_def field_default_def range_errors_def)

lemma example_worker_phase:
  "worker_phase (example_env l (Inr (RDict d))) g sp st
     = (if d = [] then Inl (classify_error ''Generator returned empty results'') else Inr (RDict d),
        st\<lparr>clock := clock st + 250, worker_calls := worker_calls st @ [sp]\<rparr>)"
  by (simp add: worker_phase_def example_env_def Let_def)

lemma example_worker_phase_list:
  "worker_phase (example_env l (Inr (RList [2, 3]))) g sp st
     = (Inr (RList [2, 3]), st\<lparr>clock := clock st + 250, worker_calls := worker_calls st @ [sp]\<rparr>)"
  by (simp add: worker_phase_def example_env_def Let_def)

lemma example_resolve_dict:
  "resolve_output env request (RDict [(''save_path'', VStr ''out/x.mp4'')]) st
     = (Inr (VStr ''out/x.mp4''), st)"
  by (simp add: resolve_output_def dict_get_def Let_def)

lemma example_filename:
  "clock st = 2750 \<Longrightarrow> path_div ''out'' (new_filename st) = ''out/fastvideo_2750.mp4''"
  by (simp add: new_filename_def path_div_def path_str_def is_abs_def parts_def str_nat.simps)

lemma example_parts_file: "parts ''out/fastvideo_2750.mp4'' = [''out'', ''fastvideo_2750.mp4'']"
  by (simp add: parts_def)

lemma example_parts_x: "parts ''out/x.mp4'' = [''out'', ''x.mp4'']"
  by (simp add: parts_def)

theorem missing_output_detected_witness:
  "fst (generate_video (example_env (Inr 7) (Inr (RDict [(''save_path'', VStr ''out/x.mp4'')])))
          example_request example_state)
     = ErrorResponse 500 ''Video generation succeeded but output file not created: out/x.mp4''
   \<and> path_exists
        (fs (snd (post_generate (example_env (Inr 7) (Inr (RList [2, 3]))) example_raw example_state)))
        ''out/fastvideo_2750.mp4''"
proof
  let ?env = "example_env (Inr 7) (Inr (RDict [(''save_path'', VStr ''out/x.mp4'')]))"
  let ?fs1 = "\<lparr> cwd = [''srv''], dirs = {[''srv'', ''out''], [''srv'']}, files = Map.empty \<rparr>"
  let ?st1 = "example_state\<lparr>fs := ?fs1, g_generator := Some 7, load_count := 1, clock := 2500\<rparr>"
  let ?sp = "sampling_param example_request None"
  let ?st2 = "?st1\<lparr>clock := clock ?st1 + 250, worker_calls := worker_calls ?st1 @ [?sp]\<rparr>"
  have w: "worker_phase ?env 7 ?sp ?st1 = (Inr (RDict [(''save_path'', VStr ''out/x.mp4'')]), ?st2)"
    by (simp add: example_worker_phase)
  have n: "\<not> path_exists (fs ?st2) ''out/x.mp4''"
    by (simp add: path_exists_def resolve_def is_abs_def example_parts_x is_dir_def is_file_def
        example_state_def)
  from missing_output_detected [THEN conjunct1, rule_format,
      OF example_makedirs example_load example_keyframe w example_resolve_dict n]
  show "fst (generate_video ?env example_request example_state)
     = ErrorResponse 500 ''Video generation succeeded but output file not created: out/x.mp4''"
    by simp
next
  let ?env = "example_env (Inr 7) (Inr (RList [2, 3]))"
  let ?r = "\<lparr> status = ''complete'', outputVideoPath = Some ''out/fastvideo_2750.mp4'',
              frames = Some 25, durationMs = Some 1750, seed = None, warnings = [],
              error = None \<rparr>"
  let ?fs1 = "\<lparr> cwd = [''srv''], dirs = {[''srv'', ''out''], [''srv'']}, files = Map.empty \<rparr>"
  let ?st1 = "example_state\<lparr>fs := ?fs1, g_generator := Some 7, load_count := 1, clock := 2500\<rparr>"
  let ?sp = "sampling_param example_request None"
  let ?st2 = "?st1\<lparr>clock := clock ?st1 + 250, worker_calls := worker_calls ?st1 @ [?sp]\<rparr>"
  let ?st3 = "?st2\<lparr>fs := ?fs1\<lparr>files := [[''srv'', ''out'', ''fastvideo_2750.mp4''] \<mapsto> ''mp4'']\<rparr>\<rparr>"
  have w: "worker_phase ?env 7 ?sp ?st1 = (Inr (RList [2, 3]), ?st2)"
    by (simp add: example_worker_phase_list)
  have c: "clock ?st2 = 2750" by (simp add: example_state_def)
  have res: "resolve_output ?env example_request (RList [2, 3]) ?st2
        = (Inr (VStr ''out/fastvideo_2750.mp4''), ?st3)"
    by (simp add: resolve_output_def save_frames_def example_filename
        example_env_def example_state_def example_request_def write_text_def resolve_def is_abs_def
        example_parts_file)
  have f: "finish example_request [] (clock ?st2 - clock example_state)
             (VStr ''out/fastvideo_2750.mp4'') ?st3 = Inr ?r"
    by (simp add: finish_def path_exists_def resolve_def is_abs_def example_parts_file is_file_def
        example_request_def example_state_def)
  from run_to_finish [OF example_makedirs example_load example_keyframe w res] f
  have "generate_body ?env example_request example_state = (Inr ?r, [], ?st3)"
    by simp
  then have "fst (post_generate ?env example_raw example_state) = JsonResponse ?r"
    by (simp add: post_generate_def example_validate generate_video_def)
  from missing_output_detected [THEN conjunct2, rule_format, OF this]
  show "path_exists (fs (snd (post_generate ?env example_raw example_state))) ''out/fastvideo_2750.mp4''"
    by simp
qed

section \<open>The adapter: invalid requests and keyframes\<close>

lemma validate_out_of_range:
  assumes "out_of_range raw"
  shows "\<exists>errs. validate raw = Inl errs"
  using assms by (auto simp: out_of_range_def validate_def range_errors_def Let_def)

lemma mkdir_chain_files:
  "mkdir_chain flt pre cs f0 = Inr f1 \<Longrightarrow> files f1 = files f0 \<and> cwd f1 = cwd f0"
  by (induction cs arbitrary: pre f0) (auto simp: Let_def split: if_splits)

lemma makedirs_files:
  "makedirs flt name f0 = Inr f1 \<Longrightarrow> files f1 = files f0 \<and> cwd f1 = cwd f0"
  unfolding makedirs_def by (rule mkdir_chain_files)

lemma load_phase_keeps:
  "load_phase env st = (r, st') \<Longrightarrow> fs st' = fs st \<and> worker_calls st' = worker_calls st"
  by (auto simp: load_phase_def get_generator_def split: option.splits sum.splits prod.splits)

lemma keyframe_decode_fails:
  assumes "truthy (keyframeBase64 request)"
      and "decode_base64_image env (the (keyframeBase64 request)) = Inl e"
  shows "keyframe_phase env request =
           Inl (HTTPException 400 (''Failed to decode keyframe image: '' @ str_exn e))"
  using assms by (simp add: keyframe_phase_def)

text \<open>
  Claim C3, as amended. A body with a field out of range is answered with status 422
  before the handler runs, and the process is left as it was: no directory or file is
  created, the model is not loaded and the worker is not called. A keyframe that fails to
  decode is answered with status 400 and "Failed to decode keyframe image: " followed by
  the exception's text, after the output directory has been made and the model loaded,
  but without a call of the worker and without any file created.
\<close>

theorem invalid_request_rejected:
  "(out_of_range raw \<longrightarrow> (\<exists>detail. post_generate env raw st = (ErrorResponse 422 detail, st)))
   \<and> (validate raw = Inr request \<longrightarrow>
       makedirs (fs_faults env) (outputDir request) (fs st) = Inr fs1 \<longrightarrow>
       load_phase env (st\<lparr>fs := fs1\<rparr>) = (Inr g, st1) \<longrightarrow>
       truthy (keyframeBase64 request) \<longrightarrow>
       decode_base64_image env (the (keyframeBase64 request)) = Inl e \<longrightarrow>
       post_generate env raw st =
         (ErrorResponse 400 (''Failed to decode keyframe image: '' @ str_exn e), st1)
       \<and> worker_calls st1 = worker_calls st \<and> files (fs st1) = files (fs st))"
proof (intro conjI impI)
  assume "out_of_range raw"
  then obtain errs where "validate raw = Inl errs"
    using validate_out_of_range by blast
  then show "\<exists>detail. post_generate env raw st = (ErrorResponse 422 detail, st)"
    by (simp add: post_generate_def)
next
  assume v: "validate raw = Inr request"
     and m: "makedirs (fs_faults env) (outputDir request) (fs st) = Inr fs1"
     and l: "load_phase env (st\<lparr>fs := fs1\<rparr>) = (Inr g, st1)"
     and t: "truthy (keyframeBase64 request)"
     and d: "decode_base64_image env (the (keyframeBase64 request)) = Inl e"
  have "generate_body env request st =
          (Inl (HTTPException 400 (''Failed to decode keyframe image: '' @ str_exn e)), [], st1)"
    using m l keyframe_decode_fails [OF t d] by (simp add: generate_body_def)
  with v show "post_generate env raw st =
         (ErrorResponse 400 (''Failed to decode keyframe image: '' @ str_exn e), st1)"
    by (simp add: post_generate_def generate_video_def)
  from load_phase_keeps [OF l] show "worker_calls st1 = worker_calls st" by simp
  from load_phase_keeps [OF l] makedirs_files [OF m] show "files (fs st1) = files (fs st)" by simp
qed

lemma example_decode_no_comma:
  "decode_base64_image env ''data:QUJD'' = Inl IndexError"
  by (simp add: decode_base64_image_def strip_data_url_def split_once_def)

theorem invalid_request_rejected_witness:
  "(\<exists>detail. post_generate (example_env (Inr 7) (Inr (RList [2, 3])))
                (example_raw\<lparr>raw_numFrames := Some 400\<rparr>) example_state
              = (ErrorResponse 422 detail, example_state))
   \<and> fst (post_generate (example_env (Inr 7) (Inr (RList [2, 3])))
            (example_raw\<lparr>raw_keyframeBase64 := Some ''data:QUJD''\<rparr>) example_state)
       = ErrorResponse 400 ''Failed to decode keyframe image: list index out of range''"
proof
  have "out_of_range (example_raw\<lparr>raw_numFrames := Some 400\<rparr>)"
    by (simp add: out_of_range_def example_raw_def field_default_def)
  with invalid_request_rejected [THEN conjunct1]
  show "\<exists>detail. post_generate (example_env (Inr 7) (Inr (RList [2, 3])))
                (example_raw\<lparr>raw_numFrames := Some 400\<rparr>) example_state
              = (ErrorResponse 422 detail, example_state)"
    by blast
next
  let ?env = "example_env (Inr 7) (Inr (RList [2, 3]))"
  let ?req = "example_request\<lparr>keyframeBase64 := Some ''data:QUJD''\<rparr>"
  have v: "validate (example_raw\<lparr>raw_keyframeBase64 := Some ''data:QUJD''\<rparr>) = Inr ?req"
    by (simp add: validate_def example_raw_def example_request_def field_default_def range_errors_def)
  have m: "makedirs (fs_faults ?env) (outputDir ?req) (fs example_state)
     = Inr \<lparr> cwd = [''srv''], dirs = {[''srv'', ''out''], [''srv'']}, files = Map.empty \<rparr>"
    using example_makedirs [of "Inr 7" "Inr (RList [2, 3])"] by (simp add: example_request_def)
  have t: "truthy (keyframeBase64 ?req)" by (simp add: truthy_def)
  have d: "decode_base64_image ?env (the (keyframeBase64 ?req)) = Inl IndexError"
    by (simp add: example_decode_no_comma)
  from invalid_request_rejected [THEN conjunct2, rule_format, OF v m example_load t d]
  show "fst (post_generate ?env (example_raw\<lparr>raw_keyframeBase64 := Some ''data:QUJD''\<rparr>) example_state)
       = ErrorResponse 400 ''Failed to decode keyframe image: list index out of range''"
    by simp
qed

text \<open>
  Claim C3 as stated fails: neither answer has status 200. A body with 400 frames is
  answered with status 422, and a keyframe that does not decode with status 400.
\<close>

theorem in_band_200_counterexample:
  "http_status (fst (post_generate (example_env (Inr 7) (Inr (RList [2, 3])))
                       (example_raw\<lparr>raw_numFrames := Some 400\<rparr>) example_state)) = 422
   \<and> http_status (fst (post_generate (example_env (Inr 7) (Inr (RList [2, 3])))
                       (example_raw\<lparr>raw_keyframeBase64 := Some ''data:QUJD''\<rparr>) example_state)) = 400"
proof
  show "http_status (fst (post_generate (example_env (Inr 7) (Inr (RList [2, 3])))
                       (example_raw\<lparr>raw_numFrames := Some 400\<rparr>) example_state)) = 422"
    by (simp add: post_generate_def validate_def example_raw_def field_default_def range_errors_def)
next
  let ?env = "example_env (Inr 7) (Inr (RList [2, 3]))"
  let ?req = "example_request\<lparr>keyframeBase64 := Some ''data:QUJD''\<rparr>"
  have v: "validate (example_raw\<lparr>raw_keyframeBase64 := Some ''data:QUJD''\<rparr>) = Inr ?req"
    by (simp add: validate_def example_raw_def example_request_def field_default_def range_errors_def)
  have m: "makedirs (fs_faults ?env) (outputDir ?req) (fs example_state)
     = Inr \<lparr> cwd = [''srv''], dirs = {[''srv'', ''out''], [''srv'']}, files = Map.empty \<rparr>"
    using example_makedirs [of "Inr 7" "Inr (RList [2, 3])"] by (simp add: example_request_def)
  have k: "keyframe_phase ?env ?req =
             Inl (HTTPException 400 (''Failed to decode keyframe image: '' @ str_exn IndexError))"
    by (rule keyframe_decode_fails) (simp_all add: truthy_def example_decode_no_comma)
  have "fst (generate_body ?env ?req example_state) =
          Inl (HTTPException 400 (''Failed to decode keyframe image: '' @ str_exn IndexError))"
    using m example_load k by (simp add: generate_body_def)
  then show "http_status (fst (post_generate ?env
                 (example_raw\<lparr>raw_keyframeBase64 := Some ''data:QUJD''\<rparr>) example_state)) = 400"
    using v by (cases "generate_body ?env ?req example_state")
      (simp add: post_generate_def generate_video_def)
qed

section \<open>The adapter: the shared generator\<close>

lemma get_generator_cached:
  "g_generator st = Some g \<Longrightarrow> get_generator env st = (Inr g, st)"
  by (simp add: get_generator_def)

lemma get_generator_success:
  "get_generator env st = (Inr g, st') \<Longrightarrow> g_generator st' = Some g"
  by (auto simp: get_generator_def split: option.splits sum.splits prod.splits)

lemma get_generator_failure:
  "get_generator env st = (Inl e, st') \<Longrightarrow>
     g_generator st = None \<and> g_generator st' = None \<and> load_count st' = Suc (load_count st)"
  by (auto simp: get_generator_def split: option.splits sum.splits prod.splits)

lemma worker_phase_generator:
  "worker_phase env g sp st = (r, st') \<Longrightarrow>
     g_generator st' = g_generator st \<and> load_count st' = load_count st"
  by (auto simp: worker_phase_def Let_def split: prod.splits sum.splits if_splits)

lemma save_frames_generator:
  "save_frames env p v f st = (r, st') \<Longrightarrow>
     g_generator st' = g_generator st \<and> load_count st' = load_count st"
  by (auto simp: save_frames_def split: dict_value.splits sum.splits)

lemma resolve_output_generator:
  "resolve_output env request result st = (r, st') \<Longrightarrow>
     g_generator st' = g_generator st \<and> load_count st' = load_count st"
  by (auto simp: resolve_output_def Let_def split: worker_result.splits if_splits
           dest: save_frames_generator)

lemma generate_body_generator:
  assumes "g_generator st = Some g" and "generate_body env request st = (r, warns, st')"
  shows "g_generator st' = Some g \<and> load_count st' = load_count st"
proof (cases "makedirs (fs_faults env) (outputDir request) (fs st)")
  case (Inl m)
  with assms show ?thesis by (simp add: generate_body_def)
next
  case (Inr fs1)
  have l: "load_phase env (st\<lparr>fs := fs1\<rparr>) = (Inr g, st\<lparr>fs := fs1\<rparr>)"
    using assms(1) by (simp add: load_phase_def get_generator_cached)
  show ?thesis
  proof (cases "keyframe_phase env request")
    case (Inl e)
    with Inr l assms show ?thesis by (auto simp: generate_body_def)
  next
    case (Inr iw)
    obtain img ws where iw: "iw = (img, ws)" by (cases iw)
    obtain wr st2 where w: "worker_phase env g (sampling_param request img) (st\<lparr>fs := fs1\<rparr>) = (wr, st2)"
      by (cases "worker_phase env g (sampling_param request img) (st\<lparr>fs := fs1\<rparr>)")
    from worker_phase_generator [OF w] assms(1)
    have g2: "g_generator st2 = Some g \<and> load_count st2 = load_count st" by simp
    show ?thesis
    proof (cases wr)
      case (Inl e)
      with \<open>makedirs (fs_faults env) (outputDir request) (fs st) = Inr fs1\<close> l Inr iw w assms(2) g2
      show ?thesis by (auto simp: generate_body_def)
    next
      case (Inr result)
      obtain rr st3 where ro: "resolve_output env request result st2 = (rr, st3)"
        by (cases "resolve_output env request result st2")
      from resolve_output_generator [OF ro] g2
      have g3: "g_generator st3 = Some g \<and> load_count st3 = load_count st" by simp
      from \<open>makedirs (fs_faults env) (outputDir request) (fs st) = Inr fs1\<close> l
        \<open>keyframe_phase env request = Inr iw\<close> iw w Inr ro assms(2)
      have "st' = st3" by (auto simp: generate_body_def Let_def split: sum.splits)
      with g3 show ?thesis by simp
    qed
  qed
qed

lemma post_generate_generator:
  assumes "g_generator st = Some g"
  shows "g_generator (snd (post_generate env raw st)) = Some g
         \<and> load_count (snd (post_generate env raw st)) = load_count st"
proof (cases "validate raw")
  case (Inl errs)
  with assms show ?thesis by (simp add: post_generate_def)
next
  case (Inr request)
  obtain r warns st' where b: "generate_body env request st = (r, warns, st')"
    by (cases "generate_body env request st") auto
  from generate_body_generator [OF assms b] b Inr show ?thesis
    by (auto simp: post_generate_def generate_video_def split: sum.splits raised.splits)
qed

text \<open>
  Claim C6, as amended. Once an acquisition has succeeded, the generator is cached: every
  later acquisition returns the same generator and leaves the process as it is, and no
  later request constructs another one. A failed acquisition caches nothing: the global
  stays empty, so the next acquisition attempts the construction again.
\<close>

theorem generator_cached_after_success:
  "(get_generator env st = (Inr g, st') \<longrightarrow> get_generator env' st' = (Inr g, st'))
   \<and> (g_generator st = Some g \<longrightarrow>
        g_generator (snd (post_generate env raw st)) = Some g
        \<and> load_count (snd (post_generate env raw st)) = load_count st)
   \<and> (get_generator env st = (Inl e, st') \<longrightarrow>
        g_generator st' = None \<and> load_count st' = Suc (load_count st)
        \<and> load_count (snd (get_generator env' st')) = Suc (Suc (load_count st)))"
proof (intro conjI impI)
  assume "get_generator env st = (Inr g, st')"
  then have "g_generator st' = Some g" by (rule get_generator_success)
  then show "get_generator env' st' = (Inr g, st')" by (rule get_generator_cached)
next
  assume a: "g_generator st = Some g"
  from post_generate_generator [OF a]
  show "g_generator (snd (post_generate env raw st)) = Some g"
    and "load_count (snd (post_generate env raw st)) = load_count st" by simp_all
next
  assume a: "get_generator env st = (Inl e, st')"
  from get_generator_failure [OF a]
  show n: "g_generator st' = None" and c: "load_count st' = Suc (load_count st)" by simp_all
  from n c show "load_count (snd (get_generator env' st')) = Suc (Suc (load_count st))"
    by (simp add: get_generator_def split: prod.splits sum.splits)
qed

theorem generator_cached_after_success_witness:
  "get_generator (example_env (Inl ''gone'') (Inr (RList [2, 3])))
       (snd (get_generator (example_env (Inr 7) (Inr (RList [2, 3]))) example_state))
     = (Inr 7, snd (get_generator (example_env (Inr 7) (Inr (RList [2, 3]))) example_state))
   \<and> load_count (snd (post_generate (example_env (Inl ''gone'') (Inr (RList [2, 3]))) example_raw
                         (example_state\<lparr>g_generator := Some 7\<rparr>))) = 0
   \<and> load_count (snd (get_generator (example_env (Inl ''gone'') (Inr (RList [2, 3])))
                         (snd (get_generator (example_env (Inl ''gone'') (Inr (RList [2, 3])))
                                 example_state)))) = 2"
proof (intro conjI)
  let ?ok = "example_env (Inr 7) (Inr (RList [2, 3]))"
  let ?bad = "example_env (Inl ''gone'') (Inr (RList [2, 3]))"
  have "get_generator ?ok example_state = (Inr 7, snd (get_generator ?ok example_state))"
    by (simp add: get_generator_def example_env_def example_state_def)
  from generator_cached_after_success [THEN conjunct1, rule_format, OF this]
  show "get_generator ?bad (snd (get_generator ?ok example_state))
          = (Inr 7, snd (get_generator ?ok example_state))" .
  have "g_generator (example_state\<lparr>g_generator := Some 7\<rparr>) = Some 7" by simp
  from generator_cached_after_success [THEN conjunct2, THEN conjunct1, rule_format, OF this]
  show "load_count (snd (post_generate ?bad example_raw (example_state\<lparr>g_generator := Some 7\<rparr>))) = 0"
    by (simp add: example_state_def)
  have "get_generator ?bad example_state
          = (Inl (Exception ''gone''), snd (get_generator ?bad example_state))"
    by (simp add: get_generator_def example_env_def example_state_def)
  from generator_cached_after_success [THEN conjunct2, THEN conjunct2, rule_format, OF this]
  show "load_count (snd (get_generator ?bad (snd (get_generator ?bad example_state)))) = 2"
    by (simp add: example_state_def)
qed

text \<open>
  Claim C6 as stated fails: after a failed construction the next acquisition does not
  re-raise a cached failure, it constructs again. With a loader that always fails, two
  acquisitions make two attempts (and a third would make a third).
\<close>

theorem failed_load_retried_counterexample:
  "fst (get_generator (example_env (Inl ''gone'') (Inr (RList [2, 3]))) example_state)
     = Inl (Exception ''gone'')
   \<and> load_count (snd (get_generator (example_env (Inl ''gone'') (Inr (RList [2, 3]))) example_state)) = 1
   \<and> load_count (snd (get_generator (example_env (Inl ''gone'') (Inr (RList [2, 3])))
                         (snd (get_generator (example_env (Inl ''gone'') (Inr (RList [2, 3])))
                                 example_state)))) = 2"
  by (simp add: get_generator_def example_env_def example_state_def)

section \<open>The adapter: decoding a keyframe\<close>

lemma split_once_comma:
  assumes "CHR '','' \<notin> set a"
  shows "split_once CHR '','' (a @ CHR '','' # b) = [a, b]"
proof -
  have "takeWhile (\<lambda>x. x \<noteq> CHR '','') (a @ CHR '','' # b) = a"
    using assms by (induction a) auto
  moreover have "dropWhile (\<lambda>x. x \<noteq> CHR '','') (a @ CHR '','' # b) = CHR '','' # b"
    using assms by (induction a) auto
  ultimately show ?thesis by (simp add: split_once_def)
qed

lemma strip_data_url_comma:
  assumes "prefix ''data:'' (a @ CHR '','' # b)" and "CHR '','' \<notin> set a"
  shows "strip_data_url (a @ CHR '','' # b) = Inr b"
  using assms by (simp add: strip_data_url_def split_once_comma Let_def)

lemma strip_data_url_no_comma:
  assumes "prefix ''data:'' s" and "CHR '','' \<notin> set s"
  shows "strip_data_url s = Inl IndexError"
  using assms by (simp add: strip_data_url_def split_once_def)

lemma decode_rgb:
  "decode_base64_image env s = Inr img \<Longrightarrow> mode img = ''RGB''"
  by (auto simp: decode_base64_image_def convert_def split: sum.splits)

text \<open>
  Claim C9, as amended. A keyframe string that begins with "data:" and contains a comma
  is decoded from what follows its first comma; a string that does not begin with "data:"
  is decoded whole; in both cases the text is base64-decoded, opened as an image and
  converted to mode RGB, so that every image the decode step returns has mode RGB. A string
  that begins with "data:" and contains no comma is not decoded: the step raises IndexError.
\<close>

theorem keyframe_decoded:
  "(prefix ''data:'' (a @ '','' @ b) \<longrightarrow> CHR '','' \<notin> set a \<longrightarrow>
      decode_base64_image env (a @ '','' @ b) =
        (case b64decode env b of
           Inl m \<Rightarrow> Inl (Exception m)
         | Inr image_data \<Rightarrow>
             (case image_open env image_data of
                Inl m \<Rightarrow> Inl (Exception m)
              | Inr img \<Rightarrow> Inr (img\<lparr>mode := ''RGB''\<rparr>))))
   \<and> (\<not> prefix ''data:'' s \<longrightarrow>
      decode_base64_image env s =
        (case b64decode env s of
           Inl m \<Rightarrow> Inl (Exception m)
         | Inr image_data \<Rightarrow>
             (case image_open env image_data of
                Inl m \<Rightarrow> Inl (Exception m)
              | Inr img \<Rightarrow> Inr (img\<lparr>mode := ''RGB''\<rparr>))))
   \<and> (decode_base64_image env t = Inr img' \<longrightarrow> mode img' = ''RGB'')
   \<and> (prefix ''data:'' u \<longrightarrow> CHR '','' \<notin> set u \<longrightarrow> decode_base64_image env u = Inl IndexError)"
proof (intro conjI impI)
  assume "prefix ''data:'' (a @ '','' @ b)" "CHR '','' \<notin> set a"
  then have "strip_data_url (a @ CHR '','' # b) = Inr b" by (simp add: strip_data_url_comma)
  then show "decode_base64_image env (a @ '','' @ b) =
        (case b64decode env b of
           Inl m \<Rightarrow> Inl (Exception m)
         | Inr image_data \<Rightarrow>
             (case image_open env image_data of
                Inl m \<Rightarrow> Inl (Exception m)
              | Inr img \<Rightarrow> Inr (img\<lparr>mode := ''RGB''\<rparr>)))"
    by (simp add: decode_base64_image_def convert_def split: sum.splits)
next
  assume "\<not> prefix ''data:'' s"
  then have "strip_data_url s = Inr s" by (simp add: strip_data_url_def)
  then show "decode_base64_image env s =
        (case b64decode env s of
           Inl m \<Rightarrow> Inl (Exception m)
         | Inr image_data \<Rightarrow>
             (case image_open env image_data of
                Inl m \<Rightarrow> Inl (Exception m)
              | Inr img \<Rightarrow> Inr (img\<lparr>mode := ''RGB''\<rparr>)))"
    by (simp add: decode_base64_image_def convert_def split: sum.splits)
next
  assume "decode_base64_image env t = Inr img'"
  then show "mode img' = ''RGB''" by (rule decode_rgb)
next
  assume "prefix ''data:'' u" "CHR '','' \<notin> set u"
  then have "strip_data_url u = Inl IndexError" by (rule strip_data_url_no_comma)
  then show "decode_base64_image env u = Inl IndexError"
    by (simp add: decode_base64_image_def)
qed

theorem keyframe_decoded_witness:
  "decode_base64_image (example_env (Inr 7) (Inr (RList [2, 3]))) (''data:image/png;base64'' @ '','' @ ''QUJD'')
     = Inr \<lparr> img_size = (300, 300), mode = ''RGB'', pixels = 0 \<rparr>
   \<and> decode_base64_image (example_env (Inr 7) (Inr (RList [2, 3]))) ''QUJD''
     = Inr \<lparr> img_size = (300, 300), mode = ''RGB'', pixels = 0 \<rparr>
   \<and> mode \<lparr> img_size = (300, 300), mode = ''RGB'', pixels = 0 \<rparr> = ''RGB''
   \<and> decode_base64_image (example_env (Inr 7) (Inr (RList [2, 3]))) ''data:QUJD'' = Inl IndexError"
proof (intro conjI)
  let ?env = "example_env (Inr 7) (Inr (RList [2, 3]))"
  note k = keyframe_decoded [of "''data:image/png;base64''" "''QUJD''" ?env "''QUJD''" "''QUJD''"
      "\<lparr> img_size = (300, 300), mode = ''RGB'', pixels = 0 \<rparr>" "''data:QUJD''"]
  have p: "prefix ''data:'' (''data:image/png;base64'' @ '','' @ ''QUJD'')" by simp
  have c: "CHR '','' \<notin> set ''data:image/png;base64''" by simp
  from k [THEN conjunct1, rule_format, OF p c]
  show 1: "decode_base64_image ?env (''data:image/png;base64'' @ '','' @ ''QUJD'')
     = Inr \<lparr> img_size = (300, 300), mode = ''RGB'', pixels = 0 \<rparr>"
    by (simp add: example_env_def)
  have n: "\<not> prefix ''data:'' ''QUJD''" by simp
  from k [THEN conjunct2, THEN conjunct1, rule_format, OF n]
  show 2: "decode_base64_image ?env ''QUJD''
     = Inr \<lparr> img_size = (300, 300), mode = ''RGB'', pixels = 0 \<rparr>"
    by (simp add: example_env_def)
  from k [THEN conjunct2, THEN conjunct2, THEN conjunct1, rule_format, OF 2]
  show "mode \<lparr> img_size = (300, 300), mode = ''RGB'', pixels = 0 \<rparr> = ''RGB''" .
  have p': "prefix ''data:'' ''data:QUJD''" by simp
  have c': "CHR '','' \<notin> set ''data:QUJD''" by simp
  from k [THEN conjunct2, THEN conjunct2, THEN conjunct2, rule_format, OF p' c']
  show "decode_base64_image ?env ''data:QUJD'' = Inl IndexError" .
qed

text \<open>
  Claim C9 as stated fails on a string that begins with "data:" and has no comma: nothing
  is stripped and nothing is base64-decoded, the step raises IndexError (and the request is
  answered with status 400), although the text after "data:" is valid base64 here.
\<close>

theorem data_prefix_without_comma_counterexample:
  "prefix ''data:'' ''data:QUJD''
   \<and> b64decode (example_env (Inr 7) (Inr (RList [2, 3]))) ''QUJD'' = Inr ''ABC''
   \<and> decode_base64_image (example_env (Inr 7) (Inr (RList [2, 3]))) ''data:QUJD'' = Inl IndexError"
  by (simp add: decode_base64_image_def strip_data_url_def split_once_def example_env_def)

section \<open>The marker writer, step by step\<close>

lemma open_w_iff: "(\<exists>d'. open_w flt name d = Inr d') \<longleftrightarrow> can_open flt d name"
  by (auto simp: open_w_def can_open_def Let_def)

lemma write_tmp_ok:
  assumes "tmp_written flt (disk w) tmp"
  shows "write_tmp flt tmp payload w =
           (None, w\<lparr>disk := (disk w)\<lparr>files := (files (disk w))(resolve (cwd (disk w)) tmp \<mapsto> payload)\<rparr>,
                    trace := trace w @ [SysOpen tmp, SysWrite tmp payload, SysFlush tmp, SysFsync tmp,
                                        SysClose tmp]\<rparr>)"
  using assms
  by (simp add: tmp_written_def can_open_def write_tmp_def with_open_def sys_def open_w_def
      write_text_def sync_effect_def fsync_ignoring_def Let_def)

lemma write_tmp_fail:
  assumes "\<not> tmp_written flt (disk w) tmp" and "write_tmp flt tmp payload w = (r, w2)"
  shows "r \<noteq> None \<and> cwd (disk w2) = cwd (disk w) \<and> dirs (disk w2) = dirs (disk w)
         \<and> printed w2 = printed w \<and> utc_now w2 = utc_now w
         \<and> (\<forall>q. q \<noteq> resolve (cwd (disk w)) tmp \<longrightarrow> files (disk w2) q = files (disk w) q)"
  using assms
  by (auto simp: tmp_written_def can_open_def write_tmp_def with_open_def sys_def open_w_def
      write_text_def sync_effect_def fsync_ignoring_def Let_def split: if_splits)

lemma atomic_publish_ok:
  assumes "tmp_written flt (disk w) tmp" and "can_replace flt (disk w) final"
  shows "atomic_publish flt tmp final payload w =
           (None, w\<lparr>disk := (disk w)\<lparr>files := ((files (disk w))(resolve (cwd (disk w)) tmp := None))
                                                (resolve (cwd (disk w)) final \<mapsto> payload)\<rparr>,
                    trace := trace w @ [SysOpen tmp, SysWrite tmp payload, SysFlush tmp, SysFsync tmp,
                                        SysClose tmp, SysReplace tmp final]\<rparr>)"
  using assms(2)
  by (simp add: atomic_publish_def write_tmp_ok [OF assms(1)] sys_def replace_def can_replace_def
      is_dir_def Let_def)

lemma atomic_publish_replace_fails:
  assumes "tmp_written flt (disk w) tmp" and "\<not> can_replace flt (disk w) final"
  shows "\<exists>exc. atomic_publish flt tmp final payload w =
           (Some exc, (after_tmp w tmp payload)
                        \<lparr>trace := trace (after_tmp w tmp payload) @ [SysReplace tmp final]\<rparr>)"
  using assms(2)
  by (auto simp: atomic_publish_def write_tmp_ok [OF assms(1)] sys_def replace_def can_replace_def
      is_dir_def Let_def after_tmp_def)

lemma atomic_publish_tmp_fails:
  assumes "\<not> tmp_written flt (disk w) tmp" and "atomic_publish flt tmp final payload w = (r, w2)"
  shows "r \<noteq> None \<and> cwd (disk w2) = cwd (disk w) \<and> dirs (disk w2) = dirs (disk w)
         \<and> printed w2 = printed w \<and> utc_now w2 = utc_now w
         \<and> (\<forall>q. q \<noteq> resolve (cwd (disk w)) tmp \<longrightarrow> files (disk w2) q = files (disk w) q)"
proof -
  obtain r1 w1 where t: "write_tmp flt tmp payload w = (r1, w1)"
    by (cases "write_tmp flt tmp payload w")
  from write_tmp_fail [OF assms(1) t] obtain exc where "r1 = Some exc" by auto
  with t assms(2) have "r = r1 \<and> w2 = w1" by (simp add: atomic_publish_def)
  with write_tmp_fail [OF assms(1) t] show ?thesis by simp
qed

lemma can_open_cong:
  "cwd d = cwd d' \<Longrightarrow> dirs d = dirs d' \<Longrightarrow> can_open flt d name = can_open flt d' name"
  by (simp add: can_open_def is_dir_def)

lemma can_write_cong:
  "cwd d = cwd d' \<Longrightarrow> dirs d = dirs d' \<Longrightarrow> can_write flt d name = can_write flt d' name"
  by (simp add: can_write_def can_open_cong [of d d'])

lemma tmp_written_cong:
  "cwd d = cwd d' \<Longrightarrow> dirs d = dirs d' \<Longrightarrow> tmp_written flt d name = tmp_written flt d' name"
  by (simp add: tmp_written_def can_open_cong [of d d'])

lemma can_replace_cong:
  "cwd d = cwd d' \<Longrightarrow> dirs d = dirs d' \<Longrightarrow> can_replace flt d name = can_replace flt d' name"
  by (simp add: can_replace_def is_dir_def)

lemma remove_tmp_keeps:
  "cwd (disk (remove_tmp flt tmp w)) = cwd (disk w)
   \<and> dirs (disk (remove_tmp flt tmp w)) = dirs (disk w)
   \<and> printed (remove_tmp flt tmp w) = printed w
   \<and> utc_now (remove_tmp flt tmp w) = utc_now w
   \<and> (\<forall>q. q \<noteq> resolve (cwd (disk w)) tmp \<longrightarrow> files (disk (remove_tmp flt tmp w)) q = files (disk w) q)"
  by (auto simp: remove_tmp_def sys_def remove_def Let_def split: sum.splits)

lemma remove_tmp_removes:
  assumes "\<not> flt OpRemove (resolve (cwd (disk w)) tmp)" and "\<not> is_dir (disk w) (resolve (cwd (disk w)) tmp)"
  shows "files (disk (remove_tmp flt tmp w)) (resolve (cwd (disk w)) tmp) = None"
  using assms
  by (auto simp: remove_tmp_def sys_def remove_def path_exists_def is_file_def Let_def)

lemma remove_tmp_trace:
  assumes "is_file (disk w) (resolve (cwd (disk w)) tmp)"
  shows "trace (remove_tmp flt tmp w) = trace w @ [SysExists tmp, SysRemove tmp]"
  using assms by (auto simp: remove_tmp_def sys_def path_exists_def Let_def split: sum.splits)

lemma with_open_write_ok:
  assumes "can_write flt (disk w) final"
  shows "with_open flt final (sys (SysWrite final payload) (write_text flt final payload)) w =
           (None, w\<lparr>disk := (disk w)\<lparr>files := (files (disk w))(resolve (cwd (disk w)) final \<mapsto> payload)\<rparr>,
                    trace := trace w @ [SysOpen final, SysWrite final payload, SysClose final]\<rparr>)"
  using assms
  by (simp add: can_write_def can_open_def with_open_def sys_def open_w_def write_text_def Let_def)

lemma with_open_write_fail:
  assumes "\<not> can_write flt (disk w) final"
      and "with_open flt final (sys (SysWrite final payload) (write_text flt final payload)) w = (r, w2)"
  shows "r \<noteq> None \<and> cwd (disk w2) = cwd (disk w) \<and> dirs (disk w2) = dirs (disk w)"
  using assms
  by (auto simp: can_write_def can_open_def with_open_def sys_def open_w_def write_text_def Let_def
      split: if_splits)

lemma print_line_fields [simp]:
  "disk (print_line s w) = disk w" "trace (print_line s w) = trace w"
  "utc_now (print_line s w) = utc_now w" "printed (print_line s w) = printed w @ [s]"
  by (simp_all add: print_line_def)

lemma fallback_write_unfold:
  "fallback_write flt tmp final payload exc w =
     (case with_open flt final (sys (SysWrite final payload) (write_text flt final payload))
             (print_line (degraded_line exc) w) of
        (None, w2) \<Rightarrow>
          (True,
           print_line (''[WriteDoneMarker] Created done marker with fallback write: '' @ final)
             (remove_tmp flt tmp w2))
      | (Some exc2, w2) \<Rightarrow>
          (False, print_line (''[WriteDoneMarker] Failed to write final marker: '' @ exc2) w2))"
  unfolding fallback_write_def degraded_line_def Let_def ..

lemma fallback_write_ok:
  assumes "can_write flt (disk w) final"
  shows "fallback_write flt tmp final payload exc w =
           (True,
            print_line (''[WriteDoneMarker] Created done marker with fallback write: '' @ final)
              (remove_tmp flt tmp
                 ((print_line (degraded_line exc) w)
                    \<lparr>disk := (disk w)\<lparr>files := (files (disk w))(resolve (cwd (disk w)) final \<mapsto> payload)\<rparr>,
                     trace := trace w @ [SysOpen final, SysWrite final payload, SysClose final]\<rparr>)))"
proof -
  have "can_write flt (disk (print_line (degraded_line exc) w)) final" using assms by simp
  from with_open_write_ok [OF this, of payload] show ?thesis
    unfolding fallback_write_unfold by simp
qed

lemma fallback_write_fail:
  assumes "\<not> can_write flt (disk w) final"
      and "fallback_write flt tmp final payload exc w = (ok, w3)"
  shows "\<not> ok \<and> cwd (disk w3) = cwd (disk w) \<and> dirs (disk w3) = dirs (disk w)"
proof -
  let ?w1 = "print_line (degraded_line exc) w"
  obtain r w2 where o: "with_open flt final (sys (SysWrite final payload) (write_text flt final payload)) ?w1 = (r, w2)"
    by (cases "with_open flt final (sys (SysWrite final payload) (write_text flt final payload)) ?w1")
  have "\<not> can_write flt (disk ?w1) final" using assms(1) by simp
  from with_open_write_fail [OF this o] obtain exc2 where
    e: "r = Some exc2" and k: "cwd (disk w2) = cwd (disk w)" "dirs (disk w2) = dirs (disk w)"
    by auto
  have "fallback_write flt tmp final payload exc w =
          (False, print_line (''[WriteDoneMarker] Failed to write final marker: '' @ exc2) w2)"
    unfolding fallback_write_unfold o e by simp
  with assms(2) have "ok = False" and "w3 = print_line (''[WriteDoneMarker] Failed to write final marker: '' @ exc2) w2"
    by simp_all
  with k show ?thesis by simp
qed

text \<open>The named conditions are exactly those under which the calls succeed.\<close>

lemma replace_iff:
  assumes "files d (resolve (cwd d) src) \<noteq> None"
  shows "(\<exists>d'. replace flt src dst d = Inr d') \<longleftrightarrow> can_replace flt d dst"
  using assms by (auto simp: replace_def can_replace_def Let_def split: if_splits)

lemma write_tmp_iff:
  "fst (write_tmp flt tmp payload w) = None \<longleftrightarrow> tmp_written flt (disk w) tmp"
proof (cases "tmp_written flt (disk w) tmp")
  case True
  from write_tmp_ok [OF True, of payload] True show ?thesis by simp
next
  case False
  obtain r w2 where "write_tmp flt tmp payload w = (r, w2)" by (cases "write_tmp flt tmp payload w")
  from write_tmp_fail [OF False this] this False show ?thesis by simp
qed

lemma direct_write_iff:
  "fst (with_open flt final (sys (SysWrite final payload) (write_text flt final payload)) w) = None
     \<longleftrightarrow> can_write flt (disk w) final"
proof (cases "can_write flt (disk w) final")
  case True
  from with_open_write_ok [OF True, of payload] True show ?thesis by simp
next
  case False
  obtain r w2 where
    o: "with_open flt final (sys (SysWrite final payload) (write_text flt final payload)) w = (r, w2)"
    by (cases "with_open flt final (sys (SysWrite final payload) (write_text flt final payload)) w")
  from with_open_write_fail [OF False o] o False show ?thesis by simp
qed

section \<open>Creating the output directory\<close>

lemma mkdir_chain_dirs:
  assumes "mkdir_chain flt pre cs f0 = Inr f1"
  shows "dirs f0 \<subseteq> dirs f1
         \<and> (\<forall>n. 0 < n \<and> n \<le> length cs \<longrightarrow> is_dir f1 (pre @ take n cs))
         \<and> dirs f1 \<subseteq> dirs f0 \<union> {pre @ take n cs |n. 0 < n \<and> n \<le> length cs}"
  using assms
proof (induction cs arbitrary: pre f0)
  case Nil
  then show ?case by simp
next
  case (Cons c cs)
  let ?q = "pre @ [c]"
  let ?f = "if is_dir f0 ?q then f0 else f0\<lparr>dirs := insert ?q (dirs f0)\<rparr>"
  from Cons.prems have step: "mkdir_chain flt ?q cs ?f = Inr f1"
    by (auto simp: Let_def split: if_splits)
  from Cons.IH [OF step]
  have ih: "dirs ?f \<subseteq> dirs f1"
    "\<forall>n. 0 < n \<and> n \<le> length cs \<longrightarrow> is_dir f1 (?q @ take n cs)"
    "dirs f1 \<subseteq> dirs ?f \<union> {?q @ take n cs |n. 0 < n \<and> n \<le> length cs}"
    by blast+
  have q: "is_dir f1 ?q" using ih(1) by (auto simp: is_dir_def split: if_splits)
  have a: "dirs f0 \<subseteq> dirs f1" using ih(1) by (auto split: if_splits)
  have b: "is_dir f1 (pre @ take n (c # cs))" if "0 < n" "n \<le> length (c # cs)" for n
  proof (cases n)
    case 0
    with that show ?thesis by simp
  next
    case (Suc m)
    show ?thesis
    proof (cases m)
      case 0
      with Suc q show ?thesis by simp
    next
      case (Suc k)
      with \<open>n = Suc m\<close> that ih(2) show ?thesis by simp
    qed
  qed
  have c: "dirs f1 \<subseteq> dirs f0 \<union> {pre @ take n (c # cs) |n. 0 < n \<and> n \<le> length (c # cs)}"
  proof
    fix p assume "p \<in> dirs f1"
    with ih(3) consider "p \<in> dirs ?f" | n where "p = ?q @ take n cs" "0 < n" "n \<le> length cs"
      by blast
    then show "p \<in> dirs f0 \<union> {pre @ take n (c # cs) |n. 0 < n \<and> n \<le> length (c # cs)}"
    proof cases
      case 1
      then have "p \<in> dirs f0 \<or> p = pre @ take 1 (c # cs)" by (auto split: if_splits)
      then show ?thesis by (auto intro: exI [of _ 1])
    next
      case 2
      then have "p = pre @ take (Suc n) (c # cs)" by simp
      with 2 show ?thesis by (auto intro: exI [of _ "Suc n"])
    qed
  qed
  from a b c show ?case by blast
qed

lemma mkdir_chain_existing:
  assumes "\<forall>n. 0 < n \<and> n \<le> length cs \<longrightarrow> is_dir f0 (pre @ take n cs)"
  shows "mkdir_chain flt pre cs f0 = Inr f0"
  using assms
proof (induction cs arbitrary: pre)
  case Nil
  then show ?case by simp
next
  case (Cons c cs)
  from Cons.prems [rule_format, of 1] have q: "is_dir f0 (pre @ [c])" by simp
  have "\<forall>n. 0 < n \<and> n \<le> length cs \<longrightarrow> is_dir f0 ((pre @ [c]) @ take n cs)"
  proof (intro allI impI)
    fix n assume "0 < n \<and> n \<le> length cs"
    with Cons.prems [rule_format, of "Suc n"] show "is_dir f0 ((pre @ [c]) @ take n cs)" by simp
  qed
  from Cons.IH [OF this] q show ?case by simp
qed





section \<open>The outcome of \<open>write_done_marker\<close>\<close>

lemma write_done_marker_makedirs_fails:
  assumes "makedirs flt output_dir (disk w) = Inl exc"
  shows "write_done_marker flt output_dir pfx frame_count tmp_ext w =
           (Inl exc, w\<lparr>trace := trace w @ [SysMakedirs output_dir]\<rparr>)"
  using assms by (simp add: write_done_marker_def sys_def)

lemma write_done_marker_unfold:
  assumes "makedirs flt output_dir (disk w) = Inr d1"
  shows "write_done_marker flt output_dir pfx frame_count tmp_ext w =
           (case atomic_publish flt (tmp_path_of output_dir pfx tmp_ext) (final_path_of output_dir pfx)
                   (payload_json (utc_now w) frame_count)
                   (w\<lparr>disk := d1, trace := trace w @ [SysMakedirs output_dir]\<rparr>) of
              (None, w2) \<Rightarrow>
                (Inr True,
                 print_line (''[WriteDoneMarker] Created done marker atomically: ''
                             @ final_path_of output_dir pfx) w2)
            | (Some exc, w2) \<Rightarrow>
                (case fallback_write flt (tmp_path_of output_dir pfx tmp_ext)
                        (final_path_of output_dir pfx) (payload_json (utc_now w) frame_count) exc w2 of
                   (ok, w3) \<Rightarrow> (Inr ok, w3)))"
  using assms
  unfolding write_done_marker_def tmp_path_of_def final_path_of_def Let_def sys_def
  by (simp split: prod.splits option.splits)

lemma publish_atomic:
  assumes mk: "makedirs flt output_dir (disk w) = Inr d1"
      and t: "tmp_written flt d1 (tmp_path_of output_dir pfx tmp_ext)"
      and r: "can_replace flt d1 (final_path_of output_dir pfx)"
  shows "write_done_marker flt output_dir pfx frame_count tmp_ext w =
           (Inr True,
            print_line (''[WriteDoneMarker] Created done marker atomically: ''
                        @ final_path_of output_dir pfx)
              (w\<lparr>disk := d1\<lparr>files := ((files d1)(resolve (cwd d1) (tmp_path_of output_dir pfx tmp_ext) := None))
                                        (resolve (cwd d1) (final_path_of output_dir pfx)
                                           \<mapsto> payload_json (utc_now w) frame_count)\<rparr>,
                 trace := trace w @ [SysMakedirs output_dir,
                     SysOpen (tmp_path_of output_dir pfx tmp_ext),
                     SysWrite (tmp_path_of output_dir pfx tmp_ext) (payload_json (utc_now w) frame_count),
                     SysFlush (tmp_path_of output_dir pfx tmp_ext),
                     SysFsync (tmp_path_of output_dir pfx tmp_ext),
                     SysClose (tmp_path_of output_dir pfx tmp_ext),
                     SysReplace (tmp_path_of output_dir pfx tmp_ext) (final_path_of output_dir pfx)]\<rparr>))"
proof -
  let ?w1 = "w\<lparr>disk := d1, trace := trace w @ [SysMakedirs output_dir]\<rparr>"
  have "tmp_written flt (disk ?w1) (tmp_path_of output_dir pfx tmp_ext)"
       "can_replace flt (disk ?w1) (final_path_of output_dir pfx)"
    using t r by simp_all
  from atomic_publish_ok [OF this, of "payload_json (utc_now w) frame_count"]
  show ?thesis unfolding write_done_marker_unfold [OF mk] by simp
qed

lemma atomic_outcome:
  assumes "atomic_publish flt tmp final payload w = (ra, w2)"
  shows "(ra = None \<longleftrightarrow> tmp_written flt (disk w) tmp \<and> can_replace flt (disk w) final)
         \<and> cwd (disk w2) = cwd (disk w) \<and> dirs (disk w2) = dirs (disk w)
         \<and> (ra = None \<longrightarrow> files (disk w2) (resolve (cwd (disk w)) final) = Some payload)"
proof (cases "tmp_written flt (disk w) tmp")
  case False
  from atomic_publish_tmp_fails [OF False assms] False show ?thesis by auto
next
  case True
  show ?thesis
  proof (cases "can_replace flt (disk w) final")
    case False
    from atomic_publish_replace_fails [OF True False, of payload] assms True False
    show ?thesis by (auto simp: after_tmp_def)
  next
    case r: True
    from atomic_publish_ok [OF True r, of payload] assms True r
    show ?thesis by auto
  qed
qed

lemma fallback_outcome:
  assumes "fallback_write flt tmp final payload exc w = (ok, w3)"
  shows "ok = can_write flt (disk w) final
         \<and> cwd (disk w3) = cwd (disk w) \<and> dirs (disk w3) = dirs (disk w)
         \<and> (ok \<longrightarrow> resolve (cwd (disk w)) tmp \<noteq> resolve (cwd (disk w)) final \<longrightarrow>
                files (disk w3) (resolve (cwd (disk w)) final) = Some payload)"
proof (cases "can_write flt (disk w) final")
  case False
  from fallback_write_fail [OF False assms] False show ?thesis by simp
next
  case True
  let ?w2 = "(print_line (degraded_line exc) w)
               \<lparr>disk := (disk w)\<lparr>files := (files (disk w))(resolve (cwd (disk w)) final \<mapsto> payload)\<rparr>,
                trace := trace w @ [SysOpen final, SysWrite final payload, SysClose final]\<rparr>"
  from fallback_write_ok [OF True, of tmp payload exc] assms
  have ok: "ok" and w3: "w3 = print_line (''[WriteDoneMarker] Created done marker with fallback write: '' @ final)
                                  (remove_tmp flt tmp ?w2)"
    by simp_all
  from remove_tmp_keeps [of flt tmp ?w2]
  have k: "cwd (disk (remove_tmp flt tmp ?w2)) = cwd (disk w)"
          "dirs (disk (remove_tmp flt tmp ?w2)) = dirs (disk w)"
          "\<forall>q. q \<noteq> resolve (cwd (disk w)) tmp \<longrightarrow>
               files (disk (remove_tmp flt tmp ?w2)) q
                 = ((files (disk w))(resolve (cwd (disk w)) final \<mapsto> payload)) q"
    by simp_all
  have "resolve (cwd (disk w)) tmp \<noteq> resolve (cwd (disk w)) final \<longrightarrow>
          files (disk (remove_tmp flt tmp ?w2)) (resolve (cwd (disk w)) final) = Some payload"
    using k(3) [rule_format, of "resolve (cwd (disk w)) final"] by auto
  with ok w3 k(1,2) True show ?thesis by simp
qed

lemma publish_outcome:
  assumes mk: "makedirs flt output_dir (disk w) = Inr d1"
      and pub: "write_done_marker flt output_dir pfx frame_count tmp_ext w = (res, w')"
  shows "res = Inr (tmp_written flt d1 (tmp_path_of output_dir pfx tmp_ext)
                    \<and> can_replace flt d1 (final_path_of output_dir pfx)
                    \<or> can_write flt d1 (final_path_of output_dir pfx))
         \<and> cwd (disk w') = cwd d1 \<and> dirs (disk w') = dirs d1
         \<and> (res = Inr True \<longrightarrow>
              resolve (cwd d1) (tmp_path_of output_dir pfx tmp_ext)
                \<noteq> resolve (cwd d1) (final_path_of output_dir pfx) \<longrightarrow>
              files (disk w') (resolve (cwd d1) (final_path_of output_dir pfx))
                = Some (payload_json (utc_now w) frame_count))"
proof -
  let ?T = "tmp_path_of output_dir pfx tmp_ext"
  let ?F = "final_path_of output_dir pfx"
  let ?P = "payload_json (utc_now w) frame_count"
  let ?w1 = "w\<lparr>disk := d1, trace := trace w @ [SysMakedirs output_dir]\<rparr>"
  obtain ra w2 where a: "atomic_publish flt ?T ?F ?P ?w1 = (ra, w2)"
    by (cases "atomic_publish flt ?T ?F ?P ?w1")
  from atomic_outcome [OF a]
  have ao: "ra = None \<longleftrightarrow> tmp_written flt d1 ?T \<and> can_replace flt d1 ?F"
    "cwd (disk w2) = cwd d1" "dirs (disk w2) = dirs d1"
    "ra = None \<longrightarrow> files (disk w2) (resolve (cwd d1) ?F) = Some ?P"
    by simp_all
  show ?thesis
  proof (cases ra)
    case None
    with a pub have "res = Inr True"
      and "w' = print_line (''[WriteDoneMarker] Created done marker atomically: '' @ ?F) w2"
      unfolding write_done_marker_unfold [OF mk] by simp_all
    with ao None show ?thesis by simp
  next
    case (Some exc)
    obtain ok w3 where f: "fallback_write flt ?T ?F ?P exc w2 = (ok, w3)"
      by (cases "fallback_write flt ?T ?F ?P exc w2")
    from a Some f pub have r: "res = Inr ok" "w' = w3"
      unfolding write_done_marker_unfold [OF mk] by simp_all
    from fallback_outcome [OF f] ao(2,3)
    have fo: "ok = can_write flt (disk w2) ?F" "cwd (disk w3) = cwd d1" "dirs (disk w3) = dirs d1"
      "ok \<longrightarrow> resolve (cwd d1) ?T \<noteq> resolve (cwd d1) ?F \<longrightarrow>
         files (disk w3) (resolve (cwd d1) ?F) = Some ?P"
      by simp_all
    have "can_write flt (disk w2) ?F = can_write flt d1 ?F"
      using ao(2,3) by (rule can_write_cong)
    with fo r ao(1) Some show ?thesis by auto
  qed
qed

lemma publish_fallback:
  assumes mk: "makedirs flt output_dir (disk w) = Inr d1"
      and t: "tmp_written flt d1 (tmp_path_of output_dir pfx tmp_ext)"
      and r: "\<not> can_replace flt d1 (final_path_of output_dir pfx)"
      and c: "can_write flt d1 (final_path_of output_dir pfx)"
      and pub: "write_done_marker flt output_dir pfx frame_count tmp_ext w = (res, w')"
  shows "res = Inr True
     \<and> (\<exists>exc. printed w' = printed w @
           [degraded_line exc,
            ''[WriteDoneMarker] Created done marker with fallback write: ''
            @ final_path_of output_dir pfx])
     \<and> trace w' = trace w @
          [SysMakedirs output_dir,
           SysOpen (tmp_path_of output_dir pfx tmp_ext),
           SysWrite (tmp_path_of output_dir pfx tmp_ext) (payload_json (utc_now w) frame_count),
           SysFlush (tmp_path_of output_dir pfx tmp_ext),
           SysFsync (tmp_path_of output_dir pfx tmp_ext),
           SysClose (tmp_path_of output_dir pfx tmp_ext),
           SysReplace (tmp_path_of output_dir pfx tmp_ext) (final_path_of output_dir pfx),
           SysOpen (final_path_of output_dir pfx),
           SysWrite (final_path_of output_dir pfx) (payload_json (utc_now w) frame_count),
           SysClose (final_path_of output_dir pfx),
           SysExists (tmp_path_of output_dir pfx tmp_ext),
           SysRemove (tmp_path_of output_dir pfx tmp_ext)]
     \<and> (\<not> flt OpRemove (resolve (cwd d1) (tmp_path_of output_dir pfx tmp_ext)) \<longrightarrow>
          files (disk w') (resolve (cwd d1) (tmp_path_of output_dir pfx tmp_ext)) = None)"
proof -
  let ?T = "tmp_path_of output_dir pfx tmp_ext"
  let ?F = "final_path_of output_dir pfx"
  let ?P = "payload_json (utc_now w) frame_count"
  let ?w1 = "w\<lparr>disk := d1, trace := trace w @ [SysMakedirs output_dir]\<rparr>"
  define w2 where "w2 = (after_tmp ?w1 ?T ?P)\<lparr>trace := trace (after_tmp ?w1 ?T ?P) @ [SysReplace ?T ?F]\<rparr>"
  have t1: "tmp_written flt (disk ?w1) ?T" and r1: "\<not> can_replace flt (disk ?w1) ?F"
    using t r by simp_all
  from atomic_publish_replace_fails [OF t1 r1, of ?P] obtain exc
    where a: "atomic_publish flt ?T ?F ?P ?w1 = (Some exc, w2)"
    unfolding w2_def by blast
  have w2: "disk w2 = d1\<lparr>files := (files d1)(resolve (cwd d1) ?T \<mapsto> ?P)\<rparr>"
    "printed w2 = printed w"
    "trace w2 = trace w @ [SysMakedirs output_dir, SysOpen ?T, SysWrite ?T ?P, SysFlush ?T,
                          SysFsync ?T, SysClose ?T, SysReplace ?T ?F]"
    by (simp_all add: w2_def after_tmp_def)
  have c2: "can_write flt (disk w2) ?F"
    using c can_write_cong [of "disk w2" d1 flt ?F] by (simp add: w2)
  define w3 where "w3 = (print_line (degraded_line exc) w2)
               \<lparr>disk := (disk w2)\<lparr>files := (files (disk w2))(resolve (cwd (disk w2)) ?F \<mapsto> ?P)\<rparr>,
                trace := trace w2 @ [SysOpen ?F, SysWrite ?F ?P, SysClose ?F]\<rparr>"
  from fallback_write_ok [OF c2, of ?T ?P exc]
  have f: "fallback_write flt ?T ?F ?P exc w2 =
             (True, print_line (''[WriteDoneMarker] Created done marker with fallback write: '' @ ?F)
                      (remove_tmp flt ?T w3))"
    unfolding w3_def .
  from pub have res: "res = Inr True"
    and w': "w' = print_line (''[WriteDoneMarker] Created done marker with fallback write: '' @ ?F)
                      (remove_tmp flt ?T w3)"
    by (simp_all add: write_done_marker_unfold [OF mk] a f)
  have w3: "cwd (disk w3) = cwd d1"
    "files (disk w3) (resolve (cwd d1) ?T) \<noteq> None"
    "dirs (disk w3) = dirs d1"
    "printed w3 = printed w @ [degraded_line exc]"
    "trace w3 = trace w2 @ [SysOpen ?F, SysWrite ?F ?P, SysClose ?F]"
    by (simp_all add: w3_def w2)
  have isf: "is_file (disk w3) (resolve (cwd (disk w3)) ?T)"
    using w3(1,2) by (simp add: is_file_def)
  have nd: "\<not> is_dir (disk w3) (resolve (cwd (disk w3)) ?T)"
    using t w3(1,3) by (simp add: tmp_written_def can_open_def is_dir_def Let_def)
  have tr: "trace w' = trace w3 @ [SysExists ?T, SysRemove ?T]"
    using remove_tmp_trace [OF isf, of flt] by (simp add: w')
  have pr: "printed w' = printed w @ [degraded_line exc,
              ''[WriteDoneMarker] Created done marker with fallback write: '' @ ?F]"
    using remove_tmp_keeps [of flt ?T w3] by (simp add: w' w3)
  have rm: "\<not> flt OpRemove (resolve (cwd d1) ?T) \<Longrightarrow> files (disk w') (resolve (cwd d1) ?T) = None"
    using remove_tmp_removes [of flt w3 ?T] nd w3(1) by (simp add: w')
  from res pr tr rm show ?thesis by (simp add: w3 w2) blast
qed

section \<open>The marker writer: atomic publication and its fallback\<close>

text \<open>
  Claim C1. With a temporary extension that has no slash (as the default ".tmp"), the
  temporary file is a sibling of the marker: same directory, the marker's name followed by
  the extension. Once the output directory is there, the writer opens the temporary file,
  writes the payload, flushes, fsyncs and closes it, and then makes one call of
  \<open>os.replace\<close> onto the marker: when these succeed it returns True, the marker holds the
  payload and the temporary file is gone. When the temporary file was written and the
  replace fails, it prints that it falls back, writes the marker directly, looks for the
  temporary file and removes it (gone unless the removal is refused), and returns True,
  when the direct write succeeds. It returns False exactly when the atomic path fails and
  the direct write fails as well. (A failure of \<open>os.makedirs\<close> is not a return: the
  exception leaves the function.)
\<close>

theorem publish_atomic_with_fallback:
  assumes ext: "CHR ''/'' \<notin> set tmp_ext" "tmp_ext \<noteq> []"
  shows "(makedirs flt output_dir (disk w) = Inl exm \<longrightarrow>
            fst (write_done_marker flt output_dir pfx frame_count tmp_ext w) = Inl exm)
     \<and> (makedirs flt output_dir (disk w) = Inr dk \<longrightarrow>
          (\<exists>dir l. resolve (cwd dk) (final_path_of output_dir pfx) = dir @ [l]
                   \<and> resolve (cwd dk) (tmp_path_of output_dir pfx tmp_ext) = dir @ [l @ tmp_ext])
        \<and> (tmp_written flt dk (tmp_path_of output_dir pfx tmp_ext) \<longrightarrow>
           can_replace flt dk (final_path_of output_dir pfx) \<longrightarrow>
             fst (write_done_marker flt output_dir pfx frame_count tmp_ext w) = Inr True
           \<and> trace (snd (write_done_marker flt output_dir pfx frame_count tmp_ext w)) = trace w @
               [SysMakedirs output_dir,
                SysOpen (tmp_path_of output_dir pfx tmp_ext),
                SysWrite (tmp_path_of output_dir pfx tmp_ext) (payload_json (utc_now w) frame_count),
                SysFlush (tmp_path_of output_dir pfx tmp_ext),
                SysFsync (tmp_path_of output_dir pfx tmp_ext),
                SysClose (tmp_path_of output_dir pfx tmp_ext),
                SysReplace (tmp_path_of output_dir pfx tmp_ext) (final_path_of output_dir pfx)]
           \<and> files (disk (snd (write_done_marker flt output_dir pfx frame_count tmp_ext w)))
                (resolve (cwd dk) (final_path_of output_dir pfx))
               = Some (payload_json (utc_now w) frame_count)
           \<and> files (disk (snd (write_done_marker flt output_dir pfx frame_count tmp_ext w)))
                (resolve (cwd dk) (tmp_path_of output_dir pfx tmp_ext)) = None)
        \<and> (tmp_written flt dk (tmp_path_of output_dir pfx tmp_ext) \<longrightarrow>
           \<not> can_replace flt dk (final_path_of output_dir pfx) \<longrightarrow>
           can_write flt dk (final_path_of output_dir pfx) \<longrightarrow>
             fst (write_done_marker flt output_dir pfx frame_count tmp_ext w) = Inr True
           \<and> (\<exists>exc. printed (snd (write_done_marker flt output_dir pfx frame_count tmp_ext w)) =
                  printed w @
                  [degraded_line exc,
                   ''[WriteDoneMarker] Created done marker with fallback write: ''
                   @ final_path_of output_dir pfx])
           \<and> trace (snd (write_done_marker flt output_dir pfx frame_count tmp_ext w)) = trace w @
               [SysMakedirs output_dir,
                SysOpen (tmp_path_of output_dir pfx tmp_ext),
                SysWrite (tmp_path_of output_dir pfx tmp_ext) (payload_json (utc_now w) frame_count),
                SysFlush (tmp_path_of output_dir pfx tmp_ext),
                SysFsync (tmp_path_of output_dir pfx tmp_ext),
                SysClose (tmp_path_of output_dir pfx tmp_ext),
                SysReplace (tmp_path_of output_dir pfx tmp_ext) (final_path_of output_dir pfx),
                SysOpen (final_path_of output_dir pfx),
                SysWrite (final_path_of output_dir pfx) (payload_json (utc_now w) frame_count),
                SysClose (final_path_of output_dir pfx),
                SysExists (tmp_path_of output_dir pfx tmp_ext),
                SysRemove (tmp_path_of output_dir pfx tmp_ext)]
           \<and> files (disk (snd (write_done_marker flt output_dir pfx frame_count tmp_ext w)))
                (resolve (cwd dk) (final_path_of output_dir pfx))
               = Some (payload_json (utc_now w) frame_count)
           \<and> (\<not> flt OpRemove (resolve (cwd dk) (tmp_path_of output_dir pfx tmp_ext)) \<longrightarrow>
                files (disk (snd (write_done_marker flt output_dir pfx frame_count tmp_ext w)))
                  (resolve (cwd dk) (tmp_path_of output_dir pfx tmp_ext)) = None))
        \<and> (fst (write_done_marker flt output_dir pfx frame_count tmp_ext w) = Inr False
             \<longleftrightarrow> \<not> (tmp_written flt dk (tmp_path_of output_dir pfx tmp_ext)
                     \<and> can_replace flt dk (final_path_of output_dir pfx))
                 \<and> \<not> can_write flt dk (final_path_of output_dir pfx)))"
proof (intro conjI impI)
  assume "makedirs flt output_dir (disk w) = Inl exm"
  then show "fst (write_done_marker flt output_dir pfx frame_count tmp_ext w) = Inl exm"
    by (simp add: write_done_marker_makedirs_fails)
next
  let ?T = "tmp_path_of output_dir pfx tmp_ext"
  let ?F = "final_path_of output_dir pfx"
  let ?pub = "write_done_marker flt output_dir pfx frame_count tmp_ext w"
  assume mk: "makedirs flt output_dir (disk w) = Inr dk"
  from marker_paths [OF ext(1), of "cwd dk" output_dir pfx] obtain dir l
    where p: "resolve (cwd dk) ?F = dir @ [l]" "resolve (cwd dk) ?T = dir @ [l @ tmp_ext]"
    by blast
  then show "\<exists>dir l. resolve (cwd dk) ?F = dir @ [l] \<and> resolve (cwd dk) ?T = dir @ [l @ tmp_ext]"
    by blast
  from p ext(2) have ne: "resolve (cwd dk) ?T \<noteq> resolve (cwd dk) ?F" by simp
  obtain res w' where pub: "?pub = (res, w')" by (cases ?pub)
  note out = publish_outcome [OF mk pub]
  from out show "fst ?pub = Inr False
             \<longleftrightarrow> \<not> (tmp_written flt dk ?T \<and> can_replace flt dk ?F) \<and> \<not> can_write flt dk ?F"
    by (auto simp: pub)
  {
    assume t: "tmp_written flt dk ?T" and r: "can_replace flt dk ?F"
    from publish_atomic [OF mk t r, of frame_count]
    show "fst ?pub = Inr True"
      and "trace (snd ?pub) = trace w @
               [SysMakedirs output_dir, SysOpen ?T,
                SysWrite ?T (payload_json (utc_now w) frame_count),
                SysFlush ?T, SysFsync ?T, SysClose ?T, SysReplace ?T ?F]"
      by simp_all
    from out t r ne show "files (disk (snd ?pub)) (resolve (cwd dk) ?F)
               = Some (payload_json (utc_now w) frame_count)"
      by (simp add: pub)
    from publish_atomic [OF mk t r, of frame_count] ne
    show "files (disk (snd ?pub)) (resolve (cwd dk) ?T) = None"
      by simp
  }
  {
    assume t: "tmp_written flt dk ?T" and r: "\<not> can_replace flt dk ?F"
       and c: "can_write flt dk ?F"
    note fb = publish_fallback [OF mk t r c pub]
    from fb show "fst ?pub = Inr True" by (simp add: pub)
    from fb show "\<exists>exc. printed (snd ?pub) = printed w @
                  [degraded_line exc,
                   ''[WriteDoneMarker] Created done marker with fallback write: '' @ ?F]"
      unfolding pub snd_conv by blast
    from fb show "trace (snd ?pub) = trace w @
               [SysMakedirs output_dir, SysOpen ?T,
                SysWrite ?T (payload_json (utc_now w) frame_count),
                SysFlush ?T, SysFsync ?T, SysClose ?T, SysReplace ?T ?F,
                SysOpen ?F, SysWrite ?F (payload_json (utc_now w) frame_count), SysClose ?F,
                SysExists ?T, SysRemove ?T]"
      unfolding pub snd_conv by blast
    from out c ne show "files (disk (snd ?pub)) (resolve (cwd dk) ?F)
               = Some (payload_json (utc_now w) frame_count)"
      by (simp add: pub)
    {
      assume "\<not> flt OpRemove (resolve (cwd dk) ?T)"
      with fb show "files (disk (snd ?pub)) (resolve (cwd dk) ?T) = None"
        unfolding pub snd_conv by blast
    }
  }
qed

lemma example_marker_makedirs:
  assumes "\<And>p. \<not> flt OpMkdir p"
  shows "makedirs flt ''out/frames'' (disk example_world) = Inr example_disk1"
  using assms
  by (simp add: makedirs_def is_abs_def parts_def is_dir_def is_file_def example_world_def
      example_disk1_def Let_def)

lemma example_marker_paths:
  "resolve [''home''] (final_path_of ''out/frames'' ''scene-001'')
     = [''home'', ''out'', ''frames'', ''scene-001.done'']"
  "resolve [''home''] (tmp_path_of ''out/frames'' ''scene-001'' ''.tmp'')
     = [''home'', ''out'', ''frames'', ''scene-001.done.tmp'']"
  by (simp_all add: final_path_of_def tmp_path_of_def path_join_def resolve_def is_abs_def
      parts_def suffix_def)

lemma example_tmp_written:
  "\<not> flt OpOpen [''home'', ''out'', ''frames'', ''scene-001.done.tmp''] \<Longrightarrow>
   \<not> flt OpWrite [''home'', ''out'', ''frames'', ''scene-001.done.tmp''] \<Longrightarrow>
   \<not> flt OpFlush [''home'', ''out'', ''frames'', ''scene-001.done.tmp''] \<Longrightarrow>
   tmp_written flt example_disk1 (tmp_path_of ''out/frames'' ''scene-001'' ''.tmp'')"
  by (simp add: tmp_written_def can_open_def Let_def)
     (simp add: example_disk1_def example_marker_paths is_dir_def)

lemma example_can_replace:
  "can_replace flt example_disk1 (final_path_of ''out/frames'' ''scene-001'')
     = (\<not> flt OpReplace [''home'', ''out'', ''frames'', ''scene-001.done''])"
  by (simp add: can_replace_def Let_def)
     (simp add: example_disk1_def example_marker_paths is_dir_def)

lemma example_can_write:
  "can_write flt example_disk1 (final_path_of ''out/frames'' ''scene-001'')
     = (\<not> flt OpOpen [''home'', ''out'', ''frames'', ''scene-001.done'']
        \<and> \<not> flt OpWrite [''home'', ''out'', ''frames'', ''scene-001.done''])"
  by (simp add: can_write_def can_open_def Let_def)
     (simp add: example_disk1_def example_marker_paths is_dir_def)

theorem publish_atomic_with_fallback_witness:
  "fst (write_done_marker no_faults ''out/frames'' ''scene-001'' (Some 25) ''.tmp'' example_world)
     = Inr True
   \<and> files (disk (snd (write_done_marker no_faults ''out/frames'' ''scene-001'' (Some 25) ''.tmp''
                          example_world)))
        [''home'', ''out'', ''frames'', ''scene-001.done'']
     = Some (payload_json ''2025-11-03T10:00:00Z'' (Some 25))
   \<and> fst (write_done_marker cross_device ''out/frames'' ''scene-001'' (Some 25) ''.tmp'' example_world)
     = Inr True
   \<and> files (disk (snd (write_done_marker cross_device ''out/frames'' ''scene-001'' (Some 25) ''.tmp''
                          example_world)))
        [''home'', ''out'', ''frames'', ''scene-001.done'']
     = Some (payload_json ''2025-11-03T10:00:00Z'' (Some 25))
   \<and> files (disk (snd (write_done_marker cross_device ''out/frames'' ''scene-001'' (Some 25) ''.tmp''
                          example_world)))
        [''home'', ''out'', ''frames'', ''scene-001.done.tmp'']
     = None
   \<and> fst (write_done_marker marker_locked ''out/frames'' ''scene-001'' (Some 25) ''.tmp'' example_world)
     = Inr False"
proof -
  have ext: "CHR ''/'' \<notin> set ''.tmp''" "''.tmp'' \<noteq> []" by simp_all
  have c: "cwd example_disk1 = [''home'']" by (simp add: example_disk1_def)
  have u: "utc_now example_world = ''2025-11-03T10:00:00Z''" by (simp add: example_world_def)
  have mk: "makedirs flt ''out/frames'' (disk example_world) = Inr example_disk1"
    if "flt = no_faults \<or> flt = cross_device \<or> flt = marker_locked" for flt
    using that
    by (intro example_marker_makedirs) (auto simp: no_faults_def cross_device_def marker_locked_def)
  note pa = publish_atomic_with_fallback [where tmp_ext = "''.tmp''" and frame_count = "Some 25"
      and w = example_world and output_dir = "''out/frames''" and pfx = "''scene-001''"
      and dk = example_disk1, OF ext, THEN conjunct2, rule_format, OF mk]
  have t: "tmp_written flt example_disk1 (tmp_path_of ''out/frames'' ''scene-001'' ''.tmp'')"
    if "flt = no_faults \<or> flt = cross_device \<or> flt = marker_locked" for flt
    using that by (intro example_tmp_written) (auto simp: no_faults_def cross_device_def marker_locked_def)
  have r1: "can_replace no_faults example_disk1 (final_path_of ''out/frames'' ''scene-001'')"
    by (simp add: example_can_replace no_faults_def)
  have r2: "\<not> can_replace cross_device example_disk1 (final_path_of ''out/frames'' ''scene-001'')"
    by (simp add: example_can_replace cross_device_def)
  have w2: "can_write cross_device example_disk1 (final_path_of ''out/frames'' ''scene-001'')"
    by (simp add: example_can_write cross_device_def)
  have r3: "\<not> can_replace marker_locked example_disk1 (final_path_of ''out/frames'' ''scene-001'')"
    by (simp add: example_can_replace marker_locked_def)
  have w3: "\<not> can_write marker_locked example_disk1 (final_path_of ''out/frames'' ''scene-001'')"
    by (simp add: example_can_write marker_locked_def)
  have n: "\<not> cross_device OpRemove (resolve (cwd example_disk1) (tmp_path_of ''out/frames'' ''scene-001'' ''.tmp''))"
    by (simp add: cross_device_def)
  from pa [of no_faults, THEN conjunct2, THEN conjunct1, rule_format, OF _ t r1]
  have a: "fst (write_done_marker no_faults ''out/frames'' ''scene-001'' (Some 25) ''.tmp'' example_world)
     = Inr True"
    "files (disk (snd (write_done_marker no_faults ''out/frames'' ''scene-001'' (Some 25) ''.tmp''
                          example_world)))
        [''home'', ''out'', ''frames'', ''scene-001.done'']
     = Some (payload_json ''2025-11-03T10:00:00Z'' (Some 25))"
    by (simp_all add: c u example_marker_paths)
  from pa [of cross_device, THEN conjunct2, THEN conjunct2, THEN conjunct1, rule_format, OF _ t r2 w2] n
  have b: "fst (write_done_marker cross_device ''out/frames'' ''scene-001'' (Some 25) ''.tmp'' example_world)
     = Inr True"
    "files (disk (snd (write_done_marker cross_device ''out/frames'' ''scene-001'' (Some 25) ''.tmp''
                          example_world)))
        [''home'', ''out'', ''frames'', ''scene-001.done'']
     = Some (payload_json ''2025-11-03T10:00:00Z'' (Some 25))"
    "files (disk (snd (write_done_marker cross_device ''out/frames'' ''scene-001'' (Some 25) ''.tmp''
                          example_world)))
        [''home'', ''out'', ''frames'', ''scene-001.done.tmp'']
     = None"
    by (simp_all add: c u example_marker_paths)
  from pa [of marker_locked, THEN conjunct2, THEN conjunct2, THEN conjunct2] r3 w3
  have "fst (write_done_marker marker_locked ''out/frames'' ''scene-001'' (Some 25) ''.tmp'' example_world)
     = Inr False"
    by simp
  with a b show ?thesis by simp
qed

section \<open>The marker writer: publishing again\<close>

lemma publish_returns_makedirs:
  assumes "write_done_marker flt output_dir pfx frame_count tmp_ext w = (Inr ok, w')"
  shows "\<exists>dk. makedirs flt output_dir (disk w) = Inr dk"
proof (cases "makedirs flt output_dir (disk w)")
  case (Inl exc)
  from write_done_marker_makedirs_fails [OF this, of pfx frame_count tmp_ext] assms
  show ?thesis by simp
next
  case (Inr dk)
  then show ?thesis by blast
qed

lemma makedirs_again:
  assumes "makedirs flt name d = Inr dk" and "cwd d2 = cwd d" and "dirs d2 = dirs dk"
  shows "makedirs flt name d2 = Inr d2"
proof -
  let ?pre = "if is_abs name then [] else cwd d"
  from assms(1) have c: "mkdir_chain flt ?pre (parts name) d = Inr dk" by (simp add: makedirs_def)
  from mkdir_chain_dirs [OF c]
  have "\<forall>n. 0 < n \<and> n \<le> length (parts name) \<longrightarrow> is_dir dk (?pre @ take n (parts name))"
    by blast
  with assms(3) have "\<forall>n. 0 < n \<and> n \<le> length (parts name) \<longrightarrow> is_dir d2 (?pre @ take n (parts name))"
    by (simp add: is_dir_def)
  from mkdir_chain_existing [OF this, of flt] assms(2) show ?thesis
    by (auto simp: makedirs_def split: if_splits)
qed

text \<open>
  Claim C8. With a temporary extension that has no slash and is not empty (as the default
  ".tmp"): when a call for an artifact set has returned True, a second call for the same
  artifact set, at whatever later time and with whatever frame count, returns True as well,
  and the marker then holds the payload of the second call, in place of that of the first.
\<close>

theorem republish_overwrites:
  assumes ext: "CHR ''/'' \<notin> set tmp_ext" "tmp_ext \<noteq> []"
      and first: "write_done_marker flt output_dir pfx fc tmp_ext w = (Inr True, w')"
  shows "files (disk w') (resolve (cwd (disk w)) (final_path_of output_dir pfx))
           = Some (payload_json (utc_now w) fc)
       \<and> fst (write_done_marker flt output_dir pfx fc' tmp_ext (w'\<lparr>utc_now := later\<rparr>)) = Inr True
       \<and> files (disk (snd (write_done_marker flt output_dir pfx fc' tmp_ext (w'\<lparr>utc_now := later\<rparr>))))
            (resolve (cwd (disk w)) (final_path_of output_dir pfx))
           = Some (payload_json later fc')"
proof -
  let ?T = "tmp_path_of output_dir pfx tmp_ext"
  let ?F = "final_path_of output_dir pfx"
  let ?w2 = "w'\<lparr>utc_now := later\<rparr>"
  from publish_returns_makedirs [OF first] obtain dk
    where mk: "makedirs flt output_dir (disk w) = Inr dk" by blast
  from makedirs_files [OF mk] have cw: "cwd dk = cwd (disk w)" by simp
  from marker_paths [OF ext(1), of "cwd dk" output_dir pfx] ext(2)
  have ne: "resolve (cwd dk) ?T \<noteq> resolve (cwd dk) ?F" by auto
  note o1 = publish_outcome [OF mk first]
  from o1 have cond: "tmp_written flt dk ?T \<and> can_replace flt dk ?F \<or> can_write flt dk ?F"
    and k: "cwd (disk w') = cwd dk" "dirs (disk w') = dirs dk"
    by simp_all
  from o1 ne cw have c1: "files (disk w') (resolve (cwd (disk w)) ?F) = Some (payload_json (utc_now w) fc)"
    by simp
  have mk2: "makedirs flt output_dir (disk ?w2) = Inr (disk ?w2)"
    using makedirs_again [OF mk, of "disk ?w2"] k cw by simp
  obtain res2 w2' where second: "write_done_marker flt output_dir pfx fc' tmp_ext ?w2 = (res2, w2')"
    by (cases "write_done_marker flt output_dir pfx fc' tmp_ext ?w2")
  note o2 = publish_outcome [OF mk2 second]
  have same: "tmp_written flt (disk ?w2) ?T = tmp_written flt dk ?T"
    "can_replace flt (disk ?w2) ?F = can_replace flt dk ?F"
    "can_write flt (disk ?w2) ?F = can_write flt dk ?F"
    using k by (simp_all add: tmp_written_cong [of "disk w'" dk] can_replace_cong [of "disk w'" dk]
        can_write_cong [of "disk w'" dk])
  from o2 same cond have r2: "res2 = Inr True" by simp
  from o2 r2 ne k cw have c2: "files (disk w2') (resolve (cwd (disk w)) ?F) = Some (payload_json later fc')"
    by simp
  from c1 r2 c2 second show ?thesis by simp
qed

theorem republish_overwrites_witness:
  "files (disk (snd (write_done_marker cross_device ''out/frames'' ''scene-001'' (Some 25) ''.tmp''
                       example_world)))
       [''home'', ''out'', ''frames'', ''scene-001.done'']
     = Some (payload_json ''2025-11-03T10:00:00Z'' (Some 25))
   \<and> fst (write_done_marker cross_device ''out/frames'' ''scene-001'' (Some 30) ''.tmp''
           ((snd (write_done_marker cross_device ''out/frames'' ''scene-001'' (Some 25) ''.tmp''
                    example_world))\<lparr>utc_now := ''2025-11-03T10:05:00Z''\<rparr>)) = Inr True
   \<and> files (disk (snd (write_done_marker cross_device ''out/frames'' ''scene-001'' (Some 30) ''.tmp''
           ((snd (write_done_marker cross_device ''out/frames'' ''scene-001'' (Some 25) ''.tmp''
                    example_world))\<lparr>utc_now := ''2025-11-03T10:05:00Z''\<rparr>))))
       [''home'', ''out'', ''frames'', ''scene-001.done'']
     = Some (payload_json ''2025-11-03T10:05:00Z'' (Some 30))"
proof -
  let ?first = "write_done_marker cross_device ''out/frames'' ''scene-001'' (Some 25) ''.tmp'' example_world"
  have ext: "CHR ''/'' \<notin> set ''.tmp''" "''.tmp'' \<noteq> []" by simp_all
  have mk: "makedirs cross_device ''out/frames'' (disk example_world) = Inr example_disk1"
    by (rule example_marker_makedirs) (simp add: cross_device_def)
  obtain res w' where f: "?first = (res, w')" by (cases ?first)
  have "can_write cross_device example_disk1 (final_path_of ''out/frames'' ''scene-001'')"
    by (simp add: example_can_write cross_device_def)
  with publish_outcome [OF mk f] have "res = Inr True" by simp
  with f have first: "?first = (Inr True, snd ?first)" by simp
  have p: "resolve (cwd (disk example_world)) (final_path_of ''out/frames'' ''scene-001'')
     = [''home'', ''out'', ''frames'', ''scene-001.done'']"
    by (simp add: example_world_def example_marker_paths)
  have u: "utc_now example_world = ''2025-11-03T10:00:00Z''" by (simp add: example_world_def)
  from republish_overwrites [OF ext first, of "Some 30" "''2025-11-03T10:05:00Z''"]
  show ?thesis unfolding p u .
qed

section \<open>The marker writer: the output directory\<close>





section \<open>The waiter: how a wait ends\<close>

lemma show_line_fields [simp]:
  "wclock (show_line l st) = wclock st" "recvs (show_line l st) = recvs st"
  "last_progress (show_line l st) = last_progress st" "ws_open (show_line l st) = ws_open st"
  "shown (show_line l st) = shown st @ [l]"
  by (simp_all add: show_line_def)

lemma ws_close_fields [simp]:
  "fst (ws_close env st) = fst (close env (recvs st))"
  "wclock (snd (ws_close env st)) = wclock st + snd (close env (recvs st))"
  "recvs (snd (ws_close env st)) = recvs st"
  "shown (snd (ws_close env st)) = shown st"
  "fst (close env (recvs st)) = None \<Longrightarrow> \<not> ws_open (snd (ws_close env st))"
  by (auto simp: ws_close_def split: prod.splits)

lemma handle_continue:
  assumes "\<not> ends_wait env ws (recvs st)"
  shows "fst (handle_recv env ws st) = None
       \<and> wclock (snd (handle_recv env ws st)) = wclock st + round_time env ws (recvs st)
       \<and> recvs (snd (handle_recv env ws st)) = Suc (recvs st)"
proof (cases "ws_recv env ws (recvs st)")
  case (Pair r dt)
  show ?thesis
  proof (cases r)
    case (Message ev)
    show ?thesis
    proof (cases ev)
      case Executed
      with Message Pair assms obtain e where e: "fst (close env (Suc (recvs st))) = Some e"
        by (auto simp: ends_wait_def)
      let ?s = "show_line ShowComplete (st\<lparr>wclock := wclock st + dt, recvs := Suc (recvs st)\<rparr>)"
      from e have "fst (ws_close env ?s) = Some e" by simp
      then obtain s2 where c: "ws_close env ?s = (Some e, s2)" by (cases "ws_close env ?s") simp
      then have "s2 = snd (ws_close env ?s)" by simp
      then have "wclock s2 = wclock st + dt + snd (close env (Suc (recvs st)))"
        "recvs s2 = Suc (recvs st)" by simp_all
      with Executed Message Pair c show ?thesis
        by (simp add: handle_recv_def Let_def round_time_def)
    next
      case (ErrorEvent m)
      with Message Pair assms obtain e where e: "fst (close env (Suc (recvs st))) = Some e"
        by (auto simp: ends_wait_def)
      let ?s = "show_line (ShowError (field_default ''Unknown error'' m))
                  (st\<lparr>wclock := wclock st + dt, recvs := Suc (recvs st)\<rparr>)"
      from e have "fst (ws_close env ?s) = Some e" by simp
      then obtain s2 where c: "ws_close env ?s = (Some e, s2)" by (cases "ws_close env ?s") simp
      then have "s2 = snd (ws_close env ?s)" by simp
      then have "wclock s2 = wclock st + dt + snd (close env (Suc (recvs st)))"
        "recvs s2 = Suc (recvs st)" by simp_all
      with ErrorEvent Message Pair c show ?thesis
        by (simp add: handle_recv_def Let_def round_time_def)
    qed (simp_all add: Message Pair handle_recv_def Let_def round_time_def)
  qed (simp_all add: Pair handle_recv_def Let_def round_time_def)
qed

lemma handle_executed:
  assumes "fst (ws_recv env ws (recvs st)) = Message Executed"
      and "fst (close env (Suc (recvs st))) = None"
  shows "fst (handle_recv env ws st) = Some True
       \<and> wclock (snd (handle_recv env ws st)) = wclock st + round_time env ws (recvs st)
       \<and> last (shown (snd (handle_recv env ws st))) = ShowComplete
       \<and> \<not> ws_open (snd (handle_recv env ws st))"
proof (cases "ws_recv env ws (recvs st)")
  case (Pair r dt)
  with assms(1) have r: "r = Message Executed" by simp
  let ?s = "show_line ShowComplete (st\<lparr>wclock := wclock st + dt, recvs := Suc (recvs st)\<rparr>)"
  from assms(2) have "fst (ws_close env ?s) = None" by simp
  then obtain s2 where c: "ws_close env ?s = (None, s2)" by (cases "ws_close env ?s") simp
  then have "s2 = snd (ws_close env ?s)" by simp
  with assms(2) have "wclock s2 = wclock st + dt + snd (close env (Suc (recvs st)))"
    "shown s2 = shown st @ [ShowComplete]" "\<not> ws_open s2"
    by simp_all
  with r Pair c show ?thesis by (simp add: handle_recv_def Let_def round_time_def)
qed

lemma handle_error:
  assumes "fst (ws_recv env ws (recvs st)) = Message (ErrorEvent m)"
      and "fst (close env (Suc (recvs st))) = None"
  shows "fst (handle_recv env ws st) = Some False
       \<and> wclock (snd (handle_recv env ws st)) = wclock st + round_time env ws (recvs st)
       \<and> last (shown (snd (handle_recv env ws st))) = ShowError (field_default ''Unknown error'' m)
       \<and> \<not> ws_open (snd (handle_recv env ws st))"
proof (cases "ws_recv env ws (recvs st)")
  case (Pair r dt)
  with assms(1) have r: "r = Message (ErrorEvent m)" by simp
  let ?s = "show_line (ShowError (field_default ''Unknown error'' m))
              (st\<lparr>wclock := wclock st + dt, recvs := Suc (recvs st)\<rparr>)"
  from assms(2) have "fst (ws_close env ?s) = None" by simp
  then obtain s2 where c: "ws_close env ?s = (None, s2)" by (cases "ws_close env ?s") simp
  then have "s2 = snd (ws_close env ?s)" by simp
  with assms(2) have "wclock s2 = wclock st + dt + snd (close env (Suc (recvs st)))"
    "shown s2 = shown st @ [ShowError (field_default ''Unknown error'' m)]" "\<not> ws_open s2"
    by simp_all
  with r Pair c show ?thesis by (simp add: handle_recv_def Let_def round_time_def)
qed

lemma wait_loop_exit:
  assumes "\<not> wclock st - start < timeout * ticks_per_second env"
  shows "\<exists>st'. wait_loop env ws timeout start st = Some (False, st')
           \<and> wclock st' = wclock st + snd (close env (recvs st))
           \<and> (case fst (close env (recvs st)) of
                 None \<Rightarrow> last (shown st') = ShowTimeout timeout
               | Some e \<Rightarrow> last (shown st') = ShowConnectionError e)"
proof (cases "ws_close env st")
  case (Pair r s2)
  then have "s2 = snd (ws_close env st)" "r = fst (ws_close env st)" by simp_all
  then have s: "wclock s2 = wclock st + snd (close env (recvs st))" "shown s2 = shown st"
    "fst (close env (recvs st)) = r"
    by simp_all
  show ?thesis
  proof (cases r)
    case None
    with assms Pair have "wait_loop env ws timeout start st
        = Some (False, show_line (ShowTimeout timeout) s2)"
      by (subst wait_loop.simps) simp
    with s None show ?thesis by simp
  next
    case (Some e)
    with assms Pair have "wait_loop env ws timeout start st
        = Some (False, show_line (ShowConnectionError e) s2)"
      by (subst wait_loop.simps) simp
    with s Some show ?thesis by simp
  qed
qed

lemma wait_loop_continue:
  assumes "wclock st - start < timeout * ticks_per_second env"
      and "fst (handle_recv env ws st) = None"
  shows "wait_loop env ws timeout start st
           = wait_loop env ws timeout start (snd (handle_recv env ws st))"
  using assms by (subst wait_loop.simps) (auto split: prod.splits)

lemma wait_loop_return:
  assumes "wclock st - start < timeout * ticks_per_second env"
      and "fst (handle_recv env ws st) = Some b"
  shows "wait_loop env ws timeout start st = Some (b, snd (handle_recv env ws st))"
  using assms by (subst wait_loop.simps) (auto split: prod.splits)

lemma loop_skip:
  assumes "\<forall>j<k. \<not> ends_wait env ws (recvs st + j)"
      and "start \<le> wclock st"
      and "wclock st + elapsed env ws (recvs st) k < start + timeout * ticks_per_second env"
  shows "\<exists>st'. wait_loop env ws timeout start st = wait_loop env ws timeout start st'
             \<and> recvs st' = recvs st + k
             \<and> wclock st' = wclock st + elapsed env ws (recvs st) k"
  using assms
proof (induction k arbitrary: st)
  case 0
  then show ?case by auto
next
  case (Suc k)
  let ?st1 = "snd (handle_recv env ws st)"
  from Suc.prems(1) have nt: "\<not> ends_wait env ws (recvs st)"
    by (metis add.right_neutral zero_less_Suc)
  note h = handle_continue [OF nt]
  from Suc.prems(2,3) have g: "wclock st - start < timeout * ticks_per_second env" by simp
  from wait_loop_continue [OF g] h
  have c: "wait_loop env ws timeout start st = wait_loop env ws timeout start ?st1" by simp
  have 1: "\<forall>j<k. \<not> ends_wait env ws (recvs ?st1 + j)"
  proof (intro allI impI)
    fix j assume "j < k"
    with Suc.prems(1) [rule_format, of "Suc j"] h show "\<not> ends_wait env ws (recvs ?st1 + j)"
      by simp
  qed
  have 2: "start \<le> wclock ?st1" using h Suc.prems(2) by simp
  have 3: "wclock ?st1 + elapsed env ws (recvs ?st1) k < start + timeout * ticks_per_second env"
    using h Suc.prems(3) by simp
  from Suc.IH [OF 1 2 3] obtain st' where
    "wait_loop env ws timeout start ?st1 = wait_loop env ws timeout start st'"
    "recvs st' = recvs ?st1 + k" "wclock st' = wclock ?st1 + elapsed env ws (recvs ?st1) k"
    by blast
  with c h show ?case by (intro exI [of _ st']) simp
qed

lemma loop_times_out:
  assumes "\<forall>j<k. \<not> ends_wait env ws (recvs st + j)"
      and "\<forall>j<k. round_time env ws (recvs st + j) \<le> d"
      and "start \<le> wclock st"
      and "wclock st < start + timeout * ticks_per_second env + d"
      and "start + timeout * ticks_per_second env \<le> wclock st + elapsed env ws (recvs st) k"
  shows "\<exists>st' n. wait_loop env ws timeout start st = Some (False, st')
             \<and> start + timeout * ticks_per_second env + snd (close env n) \<le> wclock st'
             \<and> wclock st' < start + timeout * ticks_per_second env + d + snd (close env n)
             \<and> (case fst (close env n) of
                   None \<Rightarrow> last (shown st') = ShowTimeout timeout
                 | Some e \<Rightarrow> last (shown st') = ShowConnectionError e)"
  using assms
proof (induction k arbitrary: st)
  case 0
  then have g: "\<not> wclock st - start < timeout * ticks_per_second env" by simp
  from wait_loop_exit [OF g, of ws] obtain st' where
    "wait_loop env ws timeout start st = Some (False, st')"
    "wclock st' = wclock st + snd (close env (recvs st))"
    "case fst (close env (recvs st)) of
       None \<Rightarrow> last (shown st') = ShowTimeout timeout
     | Some e \<Rightarrow> last (shown st') = ShowConnectionError e"
    by blast
  with 0 show ?case by (intro exI [of _ st'] exI [of _ "recvs st"]) simp
next
  case (Suc k)
  show ?case
  proof (cases "wclock st - start < timeout * ticks_per_second env")
    case False
    from wait_loop_exit [OF False, of ws] obtain st' where
      "wait_loop env ws timeout start st = Some (False, st')"
      "wclock st' = wclock st + snd (close env (recvs st))"
      "case fst (close env (recvs st)) of
         None \<Rightarrow> last (shown st') = ShowTimeout timeout
       | Some e \<Rightarrow> last (shown st') = ShowConnectionError e"
      by blast
    with False Suc.prems(3,4) show ?thesis
      by (intro exI [of _ st'] exI [of _ "recvs st"]) simp
  next
    case True
    let ?st1 = "snd (handle_recv env ws st)"
    from Suc.prems(1) have nt: "\<not> ends_wait env ws (recvs st)"
      by (metis add.right_neutral zero_less_Suc)
    note h = handle_continue [OF nt]
    from wait_loop_continue [OF True] h
    have c: "wait_loop env ws timeout start st = wait_loop env ws timeout start ?st1" by simp
    have 1: "\<forall>j<k. \<not> ends_wait env ws (recvs ?st1 + j)"
    proof (intro allI impI)
      fix j assume "j < k"
      with Suc.prems(1) [rule_format, of "Suc j"] h show "\<not> ends_wait env ws (recvs ?st1 + j)"
        by simp
    qed
    have 2: "\<forall>j<k. round_time env ws (recvs ?st1 + j) \<le> d"
    proof (intro allI impI)
      fix j assume "j < k"
      with Suc.prems(2) [rule_format, of "Suc j"] h show "round_time env ws (recvs ?st1 + j) \<le> d"
        by simp
    qed
    from Suc.prems(2) [rule_format, of 0] have d0: "round_time env ws (recvs st) \<le> d" by simp
    have 3: "start \<le> wclock ?st1" using h Suc.prems(3) by simp
    have 4: "wclock ?st1 < start + timeout * ticks_per_second env + d"
      using h True d0 Suc.prems(3) by simp
    have 5: "start + timeout * ticks_per_second env \<le> wclock ?st1 + elapsed env ws (recvs ?st1) k"
      using h Suc.prems(5) by simp
    from Suc.IH [OF 1 2 3 4 5] c show ?thesis by simp
  qed
qed

lemma elapsed_grows:
  assumes "\<forall>i. 0 < round_time env ws i"
  shows "k \<le> elapsed env ws i k"
proof (induction k arbitrary: i)
  case 0
  show ?case by simp
next
  case (Suc k)
  from assms have "0 < round_time env ws i" by blast
  with Suc [of "Suc i"] show ?case by simp
qed

lemma elapsed_bounds_each:
  "j < k \<Longrightarrow> round_time env ws (i + j) \<le> elapsed env ws i k"
proof (induction k arbitrary: i j)
  case 0
  then show ?case by simp
next
  case (Suc k)
  show ?case
  proof (cases j)
    case 0
    then show ?thesis by simp
  next
    case (Suc j')
    with Suc.prems have "j' < k" by simp
    from Suc.IH [OF this, of "Suc i"] Suc show ?thesis by simp
  qed
qed

section \<open>The waiter: outcomes\<close>

lemma elapsed_snoc:
  "elapsed env ws i (Suc k) = elapsed env ws i k + round_time env ws (i + k)"
  by (induction k arbitrary: i) simp_all

lemma wait_connected:
  assumes "create_connection env (''ws://127.0.0.1:8188/ws?clientId='' @ client_id) 10 = (Inr ws, c)"
  shows "wait_for_completion env prompt_id client_id timeout st =
           wait_loop env ws timeout (wclock st + c)
             ((show_line (ShowWaiting timeout) st)
                \<lparr>wclock := wclock st + c, ws_open := True, last_progress := 0\<rparr>)"
  using assms unfolding wait_for_completion_def Let_def by simp

lemma connected_socket:
  assumes "create_connection env url secs = (Inr ws, c)"
  shows "ws = secs * ticks_per_second env \<and> c < secs * ticks_per_second env"
  using assms
  by (auto simp: create_connection_def split: prod.splits if_splits sum.splits)

text \<open>
  Claim C2, as amended. \<open>wait_for_completion\<close> returns one boolean, and consults nothing
  but the event stream, the clock and the outcome of \<open>ws.close()\<close> (it takes no marker
  store). When the connection is not established under the socket timeout of ten seconds,
  it returns False. With the connection established, the deadline (\<open>timeout\<close> seconds after
  the connection) is tested before each receive and at no other moment. So the wait ends
  with the first receive that was started before the deadline and delivers a terminal
  event after which \<open>ws.close()\<close> does not raise, whenever that event arrives, be it after
  the deadline: the call returns True for \<open>executed\<close>; for \<open>error\<close> it prints the event's
  message and returns False. When a test finds the deadline passed and no receive has ended
  the wait, the call returns False, having printed the timeout, or the exception of
  \<open>ws.close()\<close> if that raises. A failure, a timeout and a refused connection are thus the
  same returned value.
\<close>

theorem wait_returns_boolean:
  "(create_connection env (''ws://127.0.0.1:8188/ws?clientId='' @ client_id) 10 = (Inl e, c) \<longrightarrow>
      returned (wait_for_completion env prompt_id client_id timeout st) = Some False
    \<and> last_shown (wait_for_completion env prompt_id client_id timeout st)
        = Some (ShowConnectionError e))
   \<and> (create_connection env (''ws://127.0.0.1:8188/ws?clientId='' @ client_id) 10 = (Inr ws, c) \<longrightarrow>
      (\<forall>j<k. \<not> ends_wait env ws (recvs st + j)) \<longrightarrow>
      elapsed env ws (recvs st) k < timeout * ticks_per_second env \<longrightarrow>
      fst (close env (Suc (recvs st + k))) = None \<longrightarrow>
        (fst (ws_recv env ws (recvs st + k)) = Message Executed \<longrightarrow>
           returned (wait_for_completion env prompt_id client_id timeout st) = Some True
         \<and> last_shown (wait_for_completion env prompt_id client_id timeout st) = Some ShowComplete
         \<and> returned_at (wait_for_completion env prompt_id client_id timeout st)
             = Some (wclock st + c + elapsed env ws (recvs st) k
                       + round_time env ws (recvs st + k)))
      \<and> (fst (ws_recv env ws (recvs st + k)) = Message (ErrorEvent m) \<longrightarrow>
           returned (wait_for_completion env prompt_id client_id timeout st) = Some False
         \<and> last_shown (wait_for_completion env prompt_id client_id timeout st)
             = Some (ShowError (field_default ''Unknown error'' m))
         \<and> returned_at (wait_for_completion env prompt_id client_id timeout st)
             = Some (wclock st + c + elapsed env ws (recvs st) k
                       + round_time env ws (recvs st + k))))
   \<and> (create_connection env (''ws://127.0.0.1:8188/ws?clientId='' @ client_id) 10 = (Inr ws, c) \<longrightarrow>
      (\<forall>j<k. \<not> ends_wait env ws (recvs st + j)) \<longrightarrow>
      timeout * ticks_per_second env \<le> elapsed env ws (recvs st) k \<longrightarrow>
        returned (wait_for_completion env prompt_id client_id timeout st) = Some False
      \<and> (\<exists>n. case fst (close env n) of
                 None \<Rightarrow> last_shown (wait_for_completion env prompt_id client_id timeout st)
                           = Some (ShowTimeout timeout)
               | Some x \<Rightarrow> last_shown (wait_for_completion env prompt_id client_id timeout st)
                           = Some (ShowConnectionError x)))"
proof (intro conjI impI)
  let ?W = "wait_for_completion env prompt_id client_id timeout st"
  let ?url = "''ws://127.0.0.1:8188/ws?clientId='' @ client_id"
  let ?st1 = "(show_line (ShowWaiting timeout) st)
                \<lparr>wclock := wclock st + c, ws_open := True, last_progress := 0\<rparr>"
  let ?start = "wclock st + c"
  let ?T = "timeout * ticks_per_second env"
  {
    assume "create_connection env ?url 10 = (Inl e, c)"
    then have "?W = Some (False, show_line (ShowConnectionError e)
                   ((show_line (ShowWaiting timeout) st)\<lparr>wclock := wclock st + c\<rparr>))"
      unfolding wait_for_completion_def Let_def by simp
    then show "returned ?W = Some False" and "last_shown ?W = Some (ShowConnectionError e)"
      by (simp_all add: returned_def last_shown_def)
  }
  {
    assume conn: "create_connection env ?url 10 = (Inr ws, c)"
       and nt: "\<forall>j<k. \<not> ends_wait env ws (recvs st + j)"
       and to: "?T \<le> elapsed env ws (recvs st) k"
    have 1: "\<forall>j<k. \<not> ends_wait env ws (recvs ?st1 + j)" using nt by simp
    have 2: "\<forall>j<k. round_time env ws (recvs ?st1 + j) \<le> Suc (elapsed env ws (recvs st) k)"
      using elapsed_bounds_each [of _ k env ws "recvs st"] by (simp add: le_SucI)
    have 5: "?start + ?T \<le> wclock ?st1 + elapsed env ws (recvs ?st1) k" using to by simp
    from loop_times_out [of k env ws ?st1 "Suc (elapsed env ws (recvs st) k)" ?start timeout,
        OF 1 2 _ _ 5]
    obtain st' n where l: "wait_loop env ws timeout ?start ?st1 = Some (False, st')"
      "case fst (close env n) of
         None \<Rightarrow> last (shown st') = ShowTimeout timeout
       | Some x \<Rightarrow> last (shown st') = ShowConnectionError x"
      by auto
    from l(1) show "returned ?W = Some False"
      by (simp add: wait_connected [OF conn] returned_def)
    from l have "case fst (close env n) of
                   None \<Rightarrow> last_shown ?W = Some (ShowTimeout timeout)
                 | Some x \<Rightarrow> last_shown ?W = Some (ShowConnectionError x)"
      by (simp add: wait_connected [OF conn] last_shown_def split: option.splits)
    then show "\<exists>n. case fst (close env n) of
                 None \<Rightarrow> last_shown ?W = Some (ShowTimeout timeout)
               | Some x \<Rightarrow> last_shown ?W = Some (ShowConnectionError x)"
      by blast
  }
  assume conn: "create_connection env ?url 10 = (Inr ws, c)"
     and nt: "\<forall>j<k. \<not> ends_wait env ws (recvs st + j)"
     and el: "elapsed env ws (recvs st) k < ?T"
     and cl: "fst (close env (Suc (recvs st + k))) = None"
  have 1: "\<forall>j<k. \<not> ends_wait env ws (recvs ?st1 + j)" using nt by simp
  have 3: "wclock ?st1 + elapsed env ws (recvs ?st1) k < ?start + ?T" using el by simp
  from loop_skip [of k env ws ?st1 ?start timeout, OF 1 _ 3]
  obtain st' where s: "wait_loop env ws timeout ?start ?st1 = wait_loop env ws timeout ?start st'"
    "recvs st' = recvs st + k" "wclock st' = ?start + elapsed env ws (recvs st) k"
    by auto
  from s(3) el have g: "wclock st' - ?start < ?T" by simp
  from cl s(2) have cl': "fst (close env (Suc (recvs st'))) = None" by simp
  {
    assume "fst (ws_recv env ws (recvs st + k)) = Message Executed"
    with s(2) have "fst (ws_recv env ws (recvs st')) = Message Executed" by simp
    from handle_executed [OF this cl'] wait_loop_return [OF g, of ws True]
    have "wait_loop env ws timeout ?start st' = Some (True, snd (handle_recv env ws st'))"
      "last (shown (snd (handle_recv env ws st'))) = ShowComplete"
      "wclock (snd (handle_recv env ws st')) = wclock st' + round_time env ws (recvs st')"
      by simp_all
    with s show "returned ?W = Some True" and "last_shown ?W = Some ShowComplete"
      and "returned_at ?W = Some (wclock st + c + elapsed env ws (recvs st) k
                       + round_time env ws (recvs st + k))"
      by (simp_all add: wait_connected [OF conn] returned_def last_shown_def returned_at_def)
  }
  {
    assume "fst (ws_recv env ws (recvs st + k)) = Message (ErrorEvent m)"
    with s(2) have "fst (ws_recv env ws (recvs st')) = Message (ErrorEvent m)" by simp
    from handle_error [OF this cl'] wait_loop_return [OF g, of ws False]
    have "wait_loop env ws timeout ?start st' = Some (False, snd (handle_recv env ws st'))"
      "last (shown (snd (handle_recv env ws st'))) = ShowError (field_default ''Unknown error'' m)"
      "wclock (snd (handle_recv env ws st')) = wclock st' + round_time env ws (recvs st')"
      by simp_all
    with s show "returned ?W = Some False"
      and "last_shown ?W = Some (ShowError (field_default ''Unknown error'' m))"
      and "returned_at ?W = Some (wclock st + c + elapsed env ws (recvs st) k
                       + round_time env ws (recvs st + k))"
      by (simp_all add: wait_connected [OF conn] returned_def last_shown_def returned_at_def)
  }
qed

lemma elapsed_silent: "elapsed silent_ws 10 i k = 10 * k"
  by (induction k arbitrary: i) (simp_all add: silent_ws_def round_time_def ws_recv_def)

lemma elapsed_late: "i + k \<le> 29 \<Longrightarrow> elapsed late_ws 10 i k = 10 * k"
  by (induction k arbitrary: i) (simp_all add: late_ws_def round_time_def ws_recv_def)

lemma example_two_progress:
  "\<forall>j<2. \<not> ends_wait failing_ws 10 (recvs fresh_waiter + j)"
  "\<forall>j<2. \<not> ends_wait completing_ws 10 (recvs fresh_waiter + j)"
  "elapsed failing_ws 10 (recvs fresh_waiter) 2 = 10"
  "elapsed completing_ws 10 (recvs fresh_waiter) 2 = 10"
  by (simp_all add: failing_ws_def completing_ws_def fresh_waiter_def eval_nat_numeral
      ends_wait_def round_time_def ws_recv_def)

lemma example_rates:
  "ticks_per_second silent_ws = 1" "ticks_per_second failing_ws = 1"
  "ticks_per_second completing_ws = 1" "ticks_per_second late_ws = 1"
  by (simp_all add: silent_ws_def failing_ws_def completing_ws_def late_ws_def)

lemma example_connections:
  "create_connection unreachable_ws (''ws://127.0.0.1:8188/ws?clientId='' @ ''client'') 10
     = (Inl ''Connection refused'', 1)"
  "create_connection completing_ws (''ws://127.0.0.1:8188/ws?clientId='' @ ''client'') 10 = (Inr 10, 9)"
  "create_connection failing_ws (''ws://127.0.0.1:8188/ws?clientId='' @ ''client'') 10 = (Inr 10, 9)"
  "create_connection silent_ws (''ws://127.0.0.1:8188/ws?clientId='' @ ''client'') 10 = (Inr 10, 9)"
  "create_connection late_ws (''ws://127.0.0.1:8188/ws?clientId='' @ ''client'') 10 = (Inr 10, 9)"
  by (simp_all add: create_connection_def unreachable_ws_def completing_ws_def failing_ws_def
      silent_ws_def late_ws_def)

theorem wait_returns_boolean_witness:
  "returned (wait_for_completion unreachable_ws ''prompt'' ''client'' 300 fresh_waiter) = Some False
   \<and> returned (wait_for_completion completing_ws ''prompt'' ''client'' 300 fresh_waiter) = Some True
   \<and> returned (wait_for_completion failing_ws ''prompt'' ''client'' 300 fresh_waiter) = Some False
   \<and> last_shown (wait_for_completion failing_ws ''prompt'' ''client'' 300 fresh_waiter)
       = Some (ShowError ''out of memory'')
   \<and> returned (wait_for_completion silent_ws ''prompt'' ''client'' 300 fresh_waiter) = Some False
   \<and> last_shown (wait_for_completion silent_ws ''prompt'' ''client'' 300 fresh_waiter)
       = Some (ShowTimeout 300)
   \<and> returned (wait_for_completion late_ws ''prompt'' ''client'' 295 fresh_waiter) = Some True
   \<and> returned_at (wait_for_completion late_ws ''prompt'' ''client'' 295 fresh_waiter) = Some 307
   \<and> wclock fresh_waiter + 9 + 295 * ticks_per_second late_ws < 307"
proof -
  have e1: "elapsed completing_ws 10 (recvs fresh_waiter) 2 < 300 * ticks_per_second completing_ws"
    and e2: "elapsed failing_ws 10 (recvs fresh_waiter) 2 < 300 * ticks_per_second failing_ws"
    by (simp_all add: example_two_progress example_rates)
  have x1: "fst (ws_recv completing_ws 10 (recvs fresh_waiter + 2)) = Message Executed"
    "fst (close completing_ws (Suc (recvs fresh_waiter + 2))) = None"
    by (simp_all add: completing_ws_def fresh_waiter_def ws_recv_def)
  have x2: "fst (ws_recv failing_ws 10 (recvs fresh_waiter + 2))
              = Message (ErrorEvent (Some ''out of memory''))"
    "fst (close failing_ws (Suc (recvs fresh_waiter + 2))) = None"
    by (simp_all add: failing_ws_def fresh_waiter_def ws_recv_def)
  have q: "\<forall>j<30. \<not> ends_wait silent_ws 10 (recvs fresh_waiter + j)"
    by (simp add: silent_ws_def ends_wait_def ws_recv_def)
  have e3: "300 * ticks_per_second silent_ws \<le> elapsed silent_ws 10 (recvs fresh_waiter) 30"
    by (simp add: elapsed_silent example_rates)
  have q4: "\<forall>j<29. \<not> ends_wait late_ws 10 (recvs fresh_waiter + j)"
    by (simp add: late_ws_def ends_wait_def ws_recv_def fresh_waiter_def)
  have e4: "elapsed late_ws 10 (recvs fresh_waiter) 29 < 295 * ticks_per_second late_ws"
    by (simp add: elapsed_late fresh_waiter_def example_rates)
  have x4: "fst (ws_recv late_ws 10 (recvs fresh_waiter + 29)) = Message Executed"
    "fst (close late_ws (Suc (recvs fresh_waiter + 29))) = None"
    by (simp_all add: late_ws_def fresh_waiter_def ws_recv_def)
  have r4: "wclock fresh_waiter + 9 + elapsed late_ws 10 (recvs fresh_waiter) 29
              + round_time late_ws 10 (recvs fresh_waiter + 29) = 307"
    by (simp add: elapsed_late fresh_waiter_def) (simp add: late_ws_def round_time_def ws_recv_def)
  note w = wait_returns_boolean [where prompt_id = "''prompt''" and client_id = "''client''"
      and st = fresh_waiter]
  from w [where env = unreachable_ws and timeout = 300] example_connections(1)
  have 1: "returned (wait_for_completion unreachable_ws ''prompt'' ''client'' 300 fresh_waiter) = Some False"
    by blast
  from w [where env = completing_ws and k = 2 and timeout = 300 and ws = 10 and c = 9]
    example_connections(2) example_two_progress(2) e1 x1
  have 2: "returned (wait_for_completion completing_ws ''prompt'' ''client'' 300 fresh_waiter) = Some True"
    by blast
  from w [where env = failing_ws and k = 2 and m = "Some ''out of memory''" and timeout = 300
      and ws = 10 and c = 9]
    example_connections(3) example_two_progress(1) e2 x2
  have "returned (wait_for_completion failing_ws ''prompt'' ''client'' 300 fresh_waiter) = Some False
    \<and> last_shown (wait_for_completion failing_ws ''prompt'' ''client'' 300 fresh_waiter)
       = Some (ShowError (field_default ''Unknown error'' (Some ''out of memory'')))"
    by blast
  then have 3: "returned (wait_for_completion failing_ws ''prompt'' ''client'' 300 fresh_waiter) = Some False"
    "last_shown (wait_for_completion failing_ws ''prompt'' ''client'' 300 fresh_waiter)
       = Some (ShowError ''out of memory'')"
    by (simp_all add: field_default_def)
  from w [where env = silent_ws and k = 30 and timeout = 300 and ws = 10 and c = 9]
    example_connections(4) q e3
  have "returned (wait_for_completion silent_ws ''prompt'' ''client'' 300 fresh_waiter) = Some False
    \<and> (\<exists>n. case fst (close silent_ws n) of
               None \<Rightarrow> last_shown (wait_for_completion silent_ws ''prompt'' ''client'' 300 fresh_waiter)
                         = Some (ShowTimeout 300)
             | Some x \<Rightarrow> last_shown (wait_for_completion silent_ws ''prompt'' ''client'' 300 fresh_waiter)
                         = Some (ShowConnectionError x))"
    by blast
  then have 4: "returned (wait_for_completion silent_ws ''prompt'' ''client'' 300 fresh_waiter) = Some False"
    "last_shown (wait_for_completion silent_ws ''prompt'' ''client'' 300 fresh_waiter)
       = Some (ShowTimeout 300)"
    by (simp_all add: silent_ws_def)
  from w [where env = late_ws and k = 29 and timeout = 295 and ws = 10 and c = 9]
    example_connections(5) q4 e4 x4
  have "returned (wait_for_completion late_ws ''prompt'' ''client'' 295 fresh_waiter) = Some True
     \<and> returned_at (wait_for_completion late_ws ''prompt'' ''client'' 295 fresh_waiter)
       = Some (wclock fresh_waiter + 9 + elapsed late_ws 10 (recvs fresh_waiter) 29
              + round_time late_ws 10 (recvs fresh_waiter + 29))"
    by blast
  then have 5: "returned (wait_for_completion late_ws ''prompt'' ''client'' 295 fresh_waiter) = Some True"
    "returned_at (wait_for_completion late_ws ''prompt'' ''client'' 295 fresh_waiter) = Some 307"
    by (simp_all only: r4)
  have 6: "wclock fresh_waiter + 9 + 295 * ticks_per_second late_ws < 307"
    by (simp add: fresh_waiter_def example_rates)
  from 1 2 3 4 5 6 show ?thesis by simp
qed

text \<open>
  Claim C2 as stated fails: the outcome does not tell a failure from a timeout. A stream
  that ends with an error event, a stream that stays silent for the five minutes of the
  timeout, and a server that refuses the connection all give the same returned value,
  False; the event's message is printed, not returned.
\<close>

theorem failure_and_timeout_alike_counterexample:
  "returned (wait_for_completion failing_ws ''prompt'' ''client'' 300 fresh_waiter) = Some False
   \<and> returned (wait_for_completion silent_ws ''prompt'' ''client'' 300 fresh_waiter) = Some False
   \<and> returned (wait_for_completion unreachable_ws ''prompt'' ''client'' 300 fresh_waiter) = Some False"
  by (simp add: wait_for_completion_def returned_def failing_ws_def silent_ws_def unreachable_ws_def
      fresh_waiter_def wait_loop.simps handle_recv_def show_line_def Let_def field_default_def
      create_connection_def ws_recv_def ws_close_def)

section \<open>The waiter: how long a wait lasts\<close>

text \<open>
  Claim C7, as amended. There is no polling interval: the deadline is tested before each
  blocking receive only, and it is counted from the moment the connection is established,
  not from the invocation. When the connection is established (which takes less than the
  ten seconds of the socket timeout), the server sends no terminal event, every receive
  takes at least one tick of the clock, and \<open>ws.close()\<close> takes at most \<open>dc\<close> ticks, the call
  returns False, not before \<open>timeout\<close> seconds have passed since the connection was
  established, and less than \<open>timeout\<close> seconds plus the ten seconds of the socket timeout
  (which ends every receive) plus \<open>dc\<close> after it: so less than \<open>timeout\<close> plus twenty
  seconds plus \<open>dc\<close> after the invocation.
\<close>

theorem wait_bounded:
  assumes tps: "0 < ticks_per_second env"
      and conn: "create_connection env (''ws://127.0.0.1:8188/ws?clientId='' @ client_id) 10 = (Inr ws, c)"
      and quiet: "\<forall>i. \<not> terminal (fst (recv env i))"
      and pos: "\<forall>i. 0 < snd (recv env i)"
      and cl: "\<forall>i. snd (close env i) \<le> dc"
  shows "\<exists>st'. wait_for_completion env prompt_id client_id timeout st = Some (False, st')
             \<and> c < 10 * ticks_per_second env
             \<and> wclock st + c + timeout * ticks_per_second env \<le> wclock st'
             \<and> wclock st' < wclock st + c + (timeout + 10) * ticks_per_second env + dc"
proof -
  let ?st1 = "(show_line (ShowWaiting timeout) st)
                \<lparr>wclock := wclock st + c, ws_open := True, last_progress := 0\<rparr>"
  let ?start = "wclock st + c"
  let ?T = "timeout * ticks_per_second env"
  from connected_socket [OF conn] have ws: "ws = 10 * ticks_per_second env"
    and c: "c < 10 * ticks_per_second env" by simp_all
  from ws tps have wpos: "0 < ws" by simp
  have nt: "\<not> terminal (fst (ws_recv env ws i))" for i
    using quiet [rule_format, of i] by (cases "recv env i") (simp add: ws_recv_def)
  have rt: "round_time env ws i = snd (ws_recv env ws i)" for i
    using nt [of i] by (simp add: round_time_def)
  have le: "round_time env ws i \<le> ws" for i
    unfolding rt by (cases "recv env i") (simp add: ws_recv_def)
  have gt: "0 < round_time env ws i" for i
    unfolding rt using pos [rule_format, of i] wpos by (cases "recv env i") (simp add: ws_recv_def)
  have 1: "\<forall>j<?T. \<not> ends_wait env ws (recvs ?st1 + j)" using nt by (simp add: ends_wait_def)
  have 2: "\<forall>j<?T. round_time env ws (recvs ?st1 + j) \<le> ws" using le by simp
  have 4: "wclock ?st1 < ?start + ?T + ws" using wpos by simp
  have "\<forall>i. 0 < round_time env ws i" using gt by simp
  from elapsed_grows [OF this, of ?T "recvs st"]
  have 5: "?start + ?T \<le> wclock ?st1 + elapsed env ws (recvs ?st1) ?T" by simp
  from loop_times_out [of ?T env ws ?st1 ws ?start timeout, OF 1 2 _ 4 5]
  obtain st' n where l: "wait_loop env ws timeout ?start ?st1 = Some (False, st')"
    "?start + ?T + snd (close env n) \<le> wclock st'"
    "wclock st' < ?start + ?T + ws + snd (close env n)"
    by auto
  from cl have "snd (close env n) \<le> dc" by blast
  with l(2,3) ws have "?start + ?T \<le> wclock st'"
    "wclock st' < wclock st + c + (timeout + 10) * ticks_per_second env + dc"
    by (simp_all add: algebra_simps)
  with l(1) c show ?thesis by (simp add: wait_connected [OF conn])
qed

theorem wait_bounded_witness:
  "\<exists>st'. wait_for_completion silent_ws ''prompt'' ''client'' 300 fresh_waiter = Some (False, st')
        \<and> 309 \<le> wclock st' \<and> wclock st' < 320"
proof -
  have tps: "0 < ticks_per_second silent_ws" by (simp add: example_rates)
  have quiet: "\<forall>i. \<not> terminal (fst (recv silent_ws i))" by (simp add: silent_ws_def)
  have pos: "\<forall>i. 0 < snd (recv silent_ws i)" by (simp add: silent_ws_def)
  have cl: "\<forall>i. snd (close silent_ws i) \<le> 1" by (simp add: silent_ws_def)
  from wait_bounded [OF tps example_connections(4) quiet pos cl, of "''prompt''" 300 fresh_waiter]
  show ?thesis by (simp add: fresh_waiter_def example_rates)
qed

text \<open>
  Claim C7 as stated fails. There is no polling interval in the waiter: the deadline is
  looked at between receives only, and it is counted from the moment the connection is
  established. With a timeout of 300 seconds, a connection that takes nine seconds, a
  silent stream whose receives end at the ten seconds of the socket timeout, and a close
  that takes one second, the call returns 310 seconds after its invocation, later than the
  timeout plus a polling interval of one percent of the timeout.
\<close>

theorem wait_overshoots_counterexample:
  "returned_at (wait_for_completion silent_ws ''prompt'' ''client'' 300 fresh_waiter) = Some 310
   \<and> \<not> (310 \<le> wclock fresh_waiter + 300 + (3::nat))"
  by (simp add: wait_for_completion_def returned_at_def silent_ws_def fresh_waiter_def
      wait_loop.simps handle_recv_def show_line_def Let_def
      create_connection_def ws_recv_def ws_close_def)

end
